theory Spec2Isabelle
  imports Main "HOL-Library.Word" "HOL-Library.Signed_Division"
begin

unbundle bit_operations_syntax

section \<open>Go scalar types\<close>

text \<open>
  Go's fixed-width integers are words of their width. A signed type keeps the same bits and
  is read with \<open>sint\<close>; nothing in the decoded functions does arithmetic on a signed field.
\<close>

type_synonym uint8 = "8 word"
type_synonym uint16 = "16 word"
type_synonym int16 = "16 word"
type_synonym uint32 = "32 word"
type_synonym bytes = "uint8 list"

text \<open>
  Modelled from the spec: the package-level types \<open>Tag\<close>, \<open>baseTable\<close>, \<open>NameID\<close> and
  \<open>fixed\<close> are declared in files of package sfnt other than the two table files. The spec
  gives a Tag as a 4-byte identifier, a name-table reference as a 16-bit value (the optional
  PostScript reference adds 2 bytes to an instance record) and a fixed-point value as 16.16
  (high 16 bits the signed integer part, low 16 bits the fraction); \<open>cmd/font/info.go\<close> reads
  the integer part as \<open>DefaultValue.Major\<close>.
\<close>

type_synonym Tag = uint32
type_synonym baseTable = Tag
type_synonym NameID = uint16

record fixed =
  Major :: int16
  Minor :: uint16

section \<open>Package io and encoding/binary\<close>

text \<open>
  The errors the two parsers can return. They add none of their own: every error is the one
  \<open>binary.Read\<close> returned. \<open>io.EOF\<close> and \<open>io.ErrUnexpectedEOF\<close> come from \<open>io.ReadFull\<close>;
  \<open>InvalidType n\<close> is \<open>errors.New("binary.Read: invalid type " + n)\<close>.
\<close>

datatype error = EOF | ErrUnexpectedEOF | InvalidType string

text \<open>The spec's error kind Truncated: the buffer ended before a fixed-size read was complete.\<close>

definition Truncated :: "error \<Rightarrow> bool" where
  "Truncated e = (e = EOF \<or> e = ErrUnexpectedEOF)"

text \<open>
  \<open>io.ReadFull(r, buf)\<close> on a \<open>bytes.Buffer\<close> holding the unread bytes \<open>r\<close>, for a
  destination of \<open>n\<close> bytes: the bytes read and the bytes left. Nothing to read is
  \<open>io.EOF\<close>, fewer than \<open>n\<close> is \<open>io.ErrUnexpectedEOF\<close>; a destination of length 0 is
  filled at once.
\<close>

definition ReadFull :: "bytes \<Rightarrow> nat \<Rightarrow> error + (bytes \<times> bytes)" where
  "ReadFull r n =
     (if n = 0 then Inr ([], r)
      else if r = [] then Inl EOF
      else if length r < n then Inl ErrUnexpectedEOF
      else Inr (take n r, drop n r))"

text \<open>
  The shapes of the Go types handed to \<open>binary.Read\<close>, as far as \<open>reflect\<close> shows them to
  package encoding/binary.
\<close>

datatype gotype =
    Uint8 | Uint16 | Int16 | Uint32
  | Array nat gotype
  | Struct "gotype list"
  | Slice gotype
  | Pointer gotype

text \<open>
  encoding/binary's \<open>sizeof\<close>: the encoded size of a value of fixed size, and \<open>-1\<close> for a type
  that has none. Only arrays, structs and the basic numeric kinds have a size; a struct has
  one when each of its fields has.
\<close>

fun sizeof :: "gotype \<Rightarrow> int" where
  "sizeof Uint8 = 1"
| "sizeof Uint16 = 2"
| "sizeof Int16 = 2"
| "sizeof Uint32 = 4"
| "sizeof (Array n t) = (let s = sizeof t in if 0 \<le> s then int n * s else -1)"
| "sizeof (Struct fs) =
     (let ss = map sizeof fs in if list_ex (\<lambda>s. s < 0) ss then -1 else sum_list ss)"
| "sizeof (Slice t) = -1"
| "sizeof (Pointer t) = -1"

text \<open>
  \<open>binary.Read(r, binary.BigEndian, &v)\<close> for \<open>v\<close> of struct type \<open>t\<close>, whose name (as
  \<open>reflect.TypeOf(&v).String()\<close> prints it) is \<open>nm\<close>: a type without a size is refused before
  any byte is read; otherwise exactly \<open>sizeof t\<close> bytes are read and then decoded. The result
  is the bytes to decode and the bytes left in the buffer.
\<close>

definition binary_Read :: "bytes \<Rightarrow> gotype \<Rightarrow> string \<Rightarrow> error + (bytes \<times> bytes)" where
  "binary_Read r t nm =
     (if sizeof t < 0 then Inl (InvalidType nm) else ReadFull r (nat (sizeof t)))"

text \<open>
  The decoder walks the fields of a struct in declaration order, with no padding, and reads
  each integer big-endian. \<open>be\<close> is the big-endian value of a byte string; \<open>u8\<close>, \<open>u16\<close> and
  \<open>u32\<close> read the field at a byte offset of the bytes \<open>binary.Read\<close> has read.
\<close>

definition be :: "bytes \<Rightarrow> 'a::len word" where
  "be bs = foldl (\<lambda>acc b. push_bit 8 acc OR ucast b) 0 bs"

definition u8 :: "bytes \<Rightarrow> nat \<Rightarrow> uint8" where
  "u8 bs off = be (take 1 (drop off bs))"

definition u16 :: "bytes \<Rightarrow> nat \<Rightarrow> uint16" where
  "u16 bs off = be (take 2 (drop off bs))"

definition u32 :: "bytes \<Rightarrow> nat \<Rightarrow> uint32" where
  "u32 bs off = be (take 4 (drop off bs))"

section \<open>The OS/2 table\<close>

record Panose =
  BFamilyType :: uint8
  BSerifStyle :: uint8
  BWeight :: uint8
  BProportion :: uint8
  BContrast :: uint8
  BStrokeVariation :: uint8
  BArmStyle :: uint8
  BLetterform :: uint8
  BMidline :: uint8
  BXHeight :: uint8

text \<open>\<open>UlUnicodeRange\<close> is the array \<open>[4]uint32\<close>: four words, whatever the table version.\<close>

type_synonym uint32x4 = "uint32 \<times> uint32 \<times> uint32 \<times> uint32"

record TableOs2Original =
  Version :: uint16
  XAvgCharWidth :: int16
  USWeightClass :: uint16
  USWidthClass :: uint16
  FSType :: int16
  YSubscriptXSize :: int16
  YSubscriptYSize :: int16
  YSubscriptXOffset :: int16
  YSubscriptYOffset :: int16
  YSuperscriptXSize :: int16
  YSuperscriptYSize :: int16
  YSuperscriptXOffset :: int16
  YSuperscriptYOffset :: int16
  YStrikeoutSize :: int16
  YStrikeoutPosition :: int16
  SFamilyClass :: int16
  Panose :: Panose
  UlUnicodeRange :: uint32x4
  AchVendID :: Tag
  FsSelection :: uint16
  FsFirstCharIndex :: uint16
  FsLastCharIndex :: uint16

record TableOs2AdditionalFields =
  STypoAscender :: int16
  STypoDescender :: int16
  STypoLineGap :: int16
  UsWinAscent :: uint16
  UsWinDescent :: uint16
  UlCodePageRange1 :: uint32
  UlCodePageRange2 :: uint32
  SxHeigh :: int16
  SCapHeight :: int16
  UsDefaultChar :: uint16
  UsBreakChar :: uint16
  UsMaxContext :: uint16
  UsLowerPointSize :: uint16
  UsUpperPointSize :: uint16

text \<open>
  \<open>TableOS2\<close> embeds both field blocks by value, so the fields of either are fields of the
  table: \<open>t.FsSelection\<close> is \<open>FsSelection (TableOs2Original t)\<close>.
\<close>

record TableOS2 =
  baseTable :: baseTable
  TableOs2Original :: TableOs2Original
  TableOs2AdditionalFields :: TableOs2AdditionalFields
  bytes :: bytes

definition T_Tag :: gotype where
  "T_Tag = Struct [Uint32]"

definition T_Panose :: gotype where
  "T_Panose = Struct [Uint8, Uint8, Uint8, Uint8, Uint8, Uint8, Uint8, Uint8, Uint8, Uint8]"

definition T_TableOs2Original :: gotype where
  "T_TableOs2Original = Struct
     [Uint16, Int16, Uint16, Uint16, Int16, Int16, Int16, Int16, Int16, Int16, Int16, Int16,
      Int16, Int16, Int16, Int16, T_Panose, Array 4 Uint32, T_Tag, Uint16, Uint16, Uint16]"

definition T_TableOs2AdditionalFields :: gotype where
  "T_TableOs2AdditionalFields = Struct
     [Int16, Int16, Int16, Uint16, Uint16, Uint32, Uint32, Int16, Int16, Uint16, Uint16,
      Uint16, Uint16, Uint16]"

definition value_Panose :: "bytes \<Rightarrow> nat \<Rightarrow> Panose" where
  "value_Panose bs off =
     \<lparr>BFamilyType = u8 bs off, BSerifStyle = u8 bs (off + 1), BWeight = u8 bs (off + 2),
      BProportion = u8 bs (off + 3), BContrast = u8 bs (off + 4),
      BStrokeVariation = u8 bs (off + 5), BArmStyle = u8 bs (off + 6),
      BLetterform = u8 bs (off + 7), BMidline = u8 bs (off + 8), BXHeight = u8 bs (off + 9)\<rparr>"

definition value_TableOs2Original :: "bytes \<Rightarrow> TableOs2Original" where
  "value_TableOs2Original bs =
     \<lparr>Version = u16 bs 0, XAvgCharWidth = u16 bs 2, USWeightClass = u16 bs 4,
      USWidthClass = u16 bs 6, FSType = u16 bs 8, YSubscriptXSize = u16 bs 10,
      YSubscriptYSize = u16 bs 12, YSubscriptXOffset = u16 bs 14,
      YSubscriptYOffset = u16 bs 16, YSuperscriptXSize = u16 bs 18,
      YSuperscriptYSize = u16 bs 20, YSuperscriptXOffset = u16 bs 22,
      YSuperscriptYOffset = u16 bs 24, YStrikeoutSize = u16 bs 26,
      YStrikeoutPosition = u16 bs 28, SFamilyClass = u16 bs 30,
      Panose = value_Panose bs 32,
      UlUnicodeRange = (u32 bs 42, u32 bs 46, u32 bs 50, u32 bs 54),
      AchVendID = u32 bs 58, FsSelection = u16 bs 62, FsFirstCharIndex = u16 bs 64,
      FsLastCharIndex = u16 bs 66\<rparr>"

text \<open>
  What the decoder would make of the 32 bytes of the additional block. \<open>parseTableOS2\<close> never
  calls it (the source stops at a TODO); it states what decoding that block would mean.
\<close>

definition value_TableOs2AdditionalFields :: "bytes \<Rightarrow> TableOs2AdditionalFields" where
  "value_TableOs2AdditionalFields bs =
     \<lparr>STypoAscender = u16 bs 0, STypoDescender = u16 bs 2, STypoLineGap = u16 bs 4,
      UsWinAscent = u16 bs 6, UsWinDescent = u16 bs 8, UlCodePageRange1 = u32 bs 10,
      UlCodePageRange2 = u32 bs 14, SxHeigh = u16 bs 18, SCapHeight = u16 bs 20,
      UsDefaultChar = u16 bs 22, UsBreakChar = u16 bs 24, UsMaxContext = u16 bs 26,
      UsLowerPointSize = u16 bs 28, UsUpperPointSize = u16 bs 30\<rparr>"

text \<open>The zero value of the struct: what a field block left out of a composite literal holds.\<close>

definition zero_TableOs2AdditionalFields :: TableOs2AdditionalFields where
  "zero_TableOs2AdditionalFields =
     \<lparr>STypoAscender = 0, STypoDescender = 0, STypoLineGap = 0, UsWinAscent = 0,
      UsWinDescent = 0, UlCodePageRange1 = 0, UlCodePageRange2 = 0, SxHeigh = 0,
      SCapHeight = 0, UsDefaultChar = 0, UsBreakChar = 0, UsMaxContext = 0,
      UsLowerPointSize = 0, UsUpperPointSize = 0\<rparr>"

definition parseTableOS2 :: "Tag \<Rightarrow> bytes \<Rightarrow> error + TableOS2" where
  "parseTableOS2 tag buf =
     (case binary_Read buf T_TableOs2Original ''*sfnt.TableOs2Original'' of
        Inl err \<Rightarrow> Inl err
      | Inr (originalTable, r) \<Rightarrow>
          Inr \<lparr>baseTable = tag,
               TableOs2Original = value_TableOs2Original originalTable,
               TableOs2AdditionalFields = zero_TableOs2AdditionalFields,
               bytes = buf\<rparr>)"

definition Bytes_OS2 :: "TableOS2 \<Rightarrow> bytes" where
  "Bytes_OS2 t = bytes t"

subsection \<open>Style flags\<close>

definition IsBold :: "TableOS2 \<Rightarrow> bool" where
  "IsBold t = ((32 AND FsSelection (TableOs2Original t)) = 32)"

definition IsStrikeout :: "TableOS2 \<Rightarrow> bool" where
  "IsStrikeout t = ((16 AND FsSelection (TableOs2Original t)) = 16)"

definition IsOutlined :: "TableOS2 \<Rightarrow> bool" where
  "IsOutlined t = ((8 AND FsSelection (TableOs2Original t)) = 8)"

definition IsNegative :: "TableOS2 \<Rightarrow> bool" where
  "IsNegative t = ((4 AND FsSelection (TableOs2Original t)) = 4)"

definition IsUnderscore :: "TableOS2 \<Rightarrow> bool" where
  "IsUnderscore t = ((2 AND FsSelection (TableOs2Original t)) = 2)"

definition IsItalic :: "TableOS2 \<Rightarrow> bool" where
  "IsItalic t = ((1 AND FsSelection (TableOs2Original t)) = 1)"

definition FontStyle :: "TableOS2 \<Rightarrow> string" where
  "FontStyle t =
     (if IsItalic t then ''italic''
      else if IsBold t then ''bold''
      else if IsUnderscore t then ''underscore''
      else if IsOutlined t then ''outlined''
      else if IsStrikeout t then ''strikeout''
      else if IsNegative t then ''negative''
      else ''normal'')"

subsection \<open>Weight class\<close>

text \<open>
  \<open>strconv.Itoa\<close>: the decimal digits of an integer, most significant first, with a minus
  sign in front of a negative one.
\<close>

definition digit :: "nat \<Rightarrow> char" where
  "digit d = ''0123456789'' ! d"

fun utoa :: "nat \<Rightarrow> string" where
  "utoa n = (if n < 10 then [digit n] else utoa (n div 10) @ [digit (n mod 10)])"

declare utoa.simps [simp del]

definition Itoa :: "int \<Rightarrow> string" where
  "Itoa i = (if i < 0 then CHR ''-'' # utoa (nat (- i)) else utoa (nat i))"

definition WeightClass :: "TableOS2 \<Rightarrow> string" where
  "WeightClass t =
     (let w = USWeightClass (TableOs2Original t) in
      if w = 1 then ''Ultra-light''
      else if w = 2 then ''Extra-light''
      else if w = 3 then ''Light''
      else if w = 4 then ''Semi-light''
      else if w = 5 then ''Medium''
      else if w = 6 then ''Semi-bold''
      else if w = 7 then ''Bold''
      else if w = 8 then ''Extra-bold''
      else if w = 9 then ''Ultra-bold''
      else Itoa (uint w))"

text \<open>
  The value a string of decimal digits denotes, to say what "the decimal string of a value"
  is; a character that is no digit makes the string denote nothing.
\<close>

definition digit_value :: "char \<Rightarrow> nat option" where
  "digit_value c =
     (let n = of_char c :: nat in if 48 \<le> n \<and> n \<le> 57 then Some (n - 48) else None)"

fun decimal_value :: "string \<Rightarrow> nat \<Rightarrow> nat option" where
  "decimal_value [] acc = Some acc"
| "decimal_value (c # cs) acc =
     (case digit_value c of None \<Rightarrow> None | Some d \<Rightarrow> decimal_value cs (10 * acc + d))"

subsection \<open>Unicode ranges\<close>

record UnicodeSupport =
  BitIndex :: int
  Name :: string
  UnicodeRanges :: "string list"

text \<open>
  Indexing the array \<open>[4]uint32\<close> with a run-time index: outside \<open>0..3\<close> Go panics, which
  is \<open>None\<close> here.
\<close>

definition index4 :: "uint32x4 \<Rightarrow> int \<Rightarrow> uint32 option" where
  "index4 m i =
     (case m of (w0, w1, w2, w3) \<Rightarrow>
        if i = 0 then Some w0 else if i = 1 then Some w1
        else if i = 2 then Some w2 else if i = 3 then Some w3 else None)"

text \<open>
  \<open>uint32(math.Exp2(float64(e)))\<close> for \<open>-32 < e < 32\<close>, the values a remainder by 32 takes.
  For \<open>0 \<le> e\<close> the power of two is exact in a float64 and fits 32 bits, so the conversion
  gives \<open>2 ^ e\<close>; for \<open>e < 0\<close> the power lies strictly between 0 and 1 and the conversion
  truncates it to 0.
\<close>

definition Exp2_uint32 :: "int \<Rightarrow> uint32" where
  "Exp2_uint32 e = (if 0 \<le> e then 2 ^ nat e else 0)"

text \<open>Go's \<open>/\<close> and \<open>%\<close> on \<open>int\<close> truncate towards zero: \<open>sdiv\<close> and \<open>smod\<close>.\<close>

definition isSupported :: "UnicodeSupport \<Rightarrow> uint32x4 \<Rightarrow> bool option" where
  "isSupported s unicodeRangeMask =
     (let applicableBitMaskIndex = BitIndex s sdiv 32;
          exponentValue = BitIndex s smod 32
      in case index4 unicodeRangeMask applicableBitMaskIndex of
           None \<Rightarrow> None
         | Some w \<Rightarrow> Some ((Exp2_uint32 exponentValue AND w) \<noteq> 0))"

text \<open>Definitions based on https://docs.microsoft.com/en-us/typography/opentype/spec/os2#ur\<close>

definition BasicLatin :: UnicodeSupport where
  "BasicLatin =
     \<lparr>BitIndex = 0, Name = ''Basic Latin'', UnicodeRanges = [''0000-007F'']\<rparr>"

definition Latin1Supplement :: UnicodeSupport where
  "Latin1Supplement =
     \<lparr>BitIndex = 1, Name = ''Latin-1 Supplement'', UnicodeRanges = [''0080-00FF'']\<rparr>"

definition LatinExtendedA :: UnicodeSupport where
  "LatinExtendedA =
     \<lparr>BitIndex = 2, Name = ''Latin Extended-A'', UnicodeRanges = [''0100-017F'']\<rparr>"

definition LatinExtendedB :: UnicodeSupport where
  "LatinExtendedB =
     \<lparr>BitIndex = 3, Name = ''Latin Extended-B'', UnicodeRanges = [''0180-024F'']\<rparr>"

definition IPAPhonetic :: UnicodeSupport where
  "IPAPhonetic =
     \<lparr>BitIndex = 4, Name = ''IPA & Phonetic Extensions/Supplements'', UnicodeRanges = [''0250-02AF'', ''1D00-1D7F'', ''1D80-1DBF'']\<rparr>"

definition SpacingModifierLetters :: UnicodeSupport where
  "SpacingModifierLetters =
     \<lparr>BitIndex = 5, Name = ''Spacing Modifier Letters'', UnicodeRanges = [''02B0-02FF'', ''A700-A71F'']\<rparr>"

definition CombiningDiacriticalMarks :: UnicodeSupport where
  "CombiningDiacriticalMarks =
     \<lparr>BitIndex = 6, Name = ''Combining Diacritical Marks & Supplements'', UnicodeRanges = [''0300-036F'', ''1DC0-1DFF'']\<rparr>"

definition GreekCoptic :: UnicodeSupport where
  "GreekCoptic =
     \<lparr>BitIndex = 7, Name = ''Greek and Coptic'', UnicodeRanges = [''0370-03FF'']\<rparr>"

definition Coptic :: UnicodeSupport where
  "Coptic =
     \<lparr>BitIndex = 8, Name = ''Coptic'', UnicodeRanges = [''2C80-2CFF'']\<rparr>"

definition Cyrillic :: UnicodeSupport where
  "Cyrillic =
     \<lparr>BitIndex = 9, Name = ''Cyrillic'', UnicodeRanges = [''0400-04FF'', ''0500-052F'', ''2DE0-2DFF'', ''A640-A69F'']\<rparr>"

definition Armenian :: UnicodeSupport where
  "Armenian =
     \<lparr>BitIndex = 10, Name = ''Armenian'', UnicodeRanges = [''0530-058F'']\<rparr>"

definition Hebrew :: UnicodeSupport where
  "Hebrew =
     \<lparr>BitIndex = 11, Name = ''Hebrew'', UnicodeRanges = [''0590-05FF'']\<rparr>"

definition Vai :: UnicodeSupport where
  "Vai =
     \<lparr>BitIndex = 12, Name = ''Vai'', UnicodeRanges = [''A500-A63F'']\<rparr>"

definition Arabic :: UnicodeSupport where
  "Arabic =
     \<lparr>BitIndex = 13, Name = ''Arabic'', UnicodeRanges = [''0600-06FF'', ''0750-077F'']\<rparr>"

definition NKo :: UnicodeSupport where
  "NKo =
     \<lparr>BitIndex = 14, Name = ''NKo'', UnicodeRanges = [''07C0-07FF'']\<rparr>"

definition Devanagari :: UnicodeSupport where
  "Devanagari =
     \<lparr>BitIndex = 15, Name = ''Devanagari'', UnicodeRanges = [''0900-097F'']\<rparr>"

definition Bengali :: UnicodeSupport where
  "Bengali =
     \<lparr>BitIndex = 16, Name = ''Bengali'', UnicodeRanges = [''0980-09FF'']\<rparr>"

definition Gurmukhi :: UnicodeSupport where
  "Gurmukhi =
     \<lparr>BitIndex = 17, Name = ''Gurmukhi'', UnicodeRanges = [''0A00-0A7F'']\<rparr>"

definition Gujarati :: UnicodeSupport where
  "Gujarati =
     \<lparr>BitIndex = 18, Name = ''Gujarati'', UnicodeRanges = [''0A80-0AFF'']\<rparr>"

definition Oriya :: UnicodeSupport where
  "Oriya =
     \<lparr>BitIndex = 19, Name = ''Oriya'', UnicodeRanges = [''0B00-0B7F'']\<rparr>"

definition Tamil :: UnicodeSupport where
  "Tamil =
     \<lparr>BitIndex = 20, Name = ''Tamil'', UnicodeRanges = [''0B80-0BFF'']\<rparr>"

definition Telugu :: UnicodeSupport where
  "Telugu =
     \<lparr>BitIndex = 21, Name = ''Telugu'', UnicodeRanges = [''0C00-0C7F'']\<rparr>"

definition Kannada :: UnicodeSupport where
  "Kannada =
     \<lparr>BitIndex = 22, Name = ''Kannada'', UnicodeRanges = [''0C80-0CFF'']\<rparr>"

definition Malayalam :: UnicodeSupport where
  "Malayalam =
     \<lparr>BitIndex = 23, Name = ''Malayalam'', UnicodeRanges = [''0D00-0D7F'']\<rparr>"

definition Thai :: UnicodeSupport where
  "Thai =
     \<lparr>BitIndex = 24, Name = ''Thai'', UnicodeRanges = [''0E00-0E7F'']\<rparr>"

definition Lao :: UnicodeSupport where
  "Lao =
     \<lparr>BitIndex = 25, Name = ''Lao'', UnicodeRanges = [''0E80-0EFF'']\<rparr>"

definition Georgian :: UnicodeSupport where
  "Georgian =
     \<lparr>BitIndex = 26, Name = ''Georgian and supplement'', UnicodeRanges = [''10A0-10FF'', ''2D00-2D2F'']\<rparr>"

definition Balinese :: UnicodeSupport where
  "Balinese =
     \<lparr>BitIndex = 27, Name = ''Balinese'', UnicodeRanges = [''1B00-1B7F'']\<rparr>"

definition HangulJamo :: UnicodeSupport where
  "HangulJamo =
     \<lparr>BitIndex = 28, Name = ''Hangul Jamo'', UnicodeRanges = [''1100-11FF'']\<rparr>"

definition LatinExtendedAdditional :: UnicodeSupport where
  "LatinExtendedAdditional =
     \<lparr>BitIndex = 29, Name = ''Latin Extended Additional'', UnicodeRanges = [''1E00-1EFF'', ''2C60-2C7F'', ''A720-A7FF'']\<rparr>"

definition GreekExtended :: UnicodeSupport where
  "GreekExtended =
     \<lparr>BitIndex = 30, Name = ''Greek Extended'', UnicodeRanges = [''1F00-1FFF'']\<rparr>"

definition GeneralPunctuation :: UnicodeSupport where
  "GeneralPunctuation =
     \<lparr>BitIndex = 31, Name = ''General & Supplemental Punctuation'', UnicodeRanges = [''2000-206F'', ''2E00-2E7F'']\<rparr>"

definition SuperAndSubScripts :: UnicodeSupport where
  "SuperAndSubScripts =
     \<lparr>BitIndex = 32, Name = ''Superscripts And Subscripts'', UnicodeRanges = [''2070-209F'']\<rparr>"

definition CurrencySymbols :: UnicodeSupport where
  "CurrencySymbols =
     \<lparr>BitIndex = 33, Name = ''Currency Symbols'', UnicodeRanges = [''20A0-20CF'']\<rparr>"

definition CDMSymbols :: UnicodeSupport where
  "CDMSymbols =
     \<lparr>BitIndex = 34, Name = ''Combining Diacritical Marks For Symbols'', UnicodeRanges = [''20D0-20FF'']\<rparr>"

definition LetterlikeSymbols :: UnicodeSupport where
  "LetterlikeSymbols =
     \<lparr>BitIndex = 35, Name = ''Letterlike Symbols'', UnicodeRanges = [''2100-214F'']\<rparr>"

definition NumberForms :: UnicodeSupport where
  "NumberForms =
     \<lparr>BitIndex = 36, Name = ''Number Forms'', UnicodeRanges = [''2150-218F'']\<rparr>"

definition Arrows :: UnicodeSupport where
  "Arrows =
     \<lparr>BitIndex = 37, Name = ''Arrows'', UnicodeRanges = [''2190-21FF'', ''27F0-27FF'', ''2900-297F'', ''2B00-2BFF'']\<rparr>"

definition MathematicalOperators :: UnicodeSupport where
  "MathematicalOperators =
     \<lparr>BitIndex = 38, Name = ''Mathematical Operators'', UnicodeRanges = [''2200-22FF'', ''2A00-2AFF'', ''27C0-27EF'', ''2980-29FF'']\<rparr>"

definition MiscellaneousTechnical :: UnicodeSupport where
  "MiscellaneousTechnical =
     \<lparr>BitIndex = 39, Name = ''Miscellaneous Technical'', UnicodeRanges = [''2300-23FF'']\<rparr>"

definition ControlPictures :: UnicodeSupport where
  "ControlPictures =
     \<lparr>BitIndex = 40, Name = ''Control Pictures'', UnicodeRanges = [''2400-243F'']\<rparr>"

definition OpticalCharacterRecognition :: UnicodeSupport where
  "OpticalCharacterRecognition =
     \<lparr>BitIndex = 41, Name = ''Optical Character Recognition'', UnicodeRanges = [''2440-245F'']\<rparr>"

definition EnclosedAlphanumerics :: UnicodeSupport where
  "EnclosedAlphanumerics =
     \<lparr>BitIndex = 42, Name = ''Enclosed Alphanumerics'', UnicodeRanges = [''2460-24FF'']\<rparr>"

definition BoxDrawing :: UnicodeSupport where
  "BoxDrawing =
     \<lparr>BitIndex = 43, Name = ''Box Drawing'', UnicodeRanges = [''2500-257F'']\<rparr>"

definition BlockElements :: UnicodeSupport where
  "BlockElements =
     \<lparr>BitIndex = 44, Name = ''Block Elements'', UnicodeRanges = [''2580-259F'']\<rparr>"

definition GeometricShapes :: UnicodeSupport where
  "GeometricShapes =
     \<lparr>BitIndex = 45, Name = ''Geometric Shapes'', UnicodeRanges = [''25A0-25FF'']\<rparr>"

definition MiscellaneousSymbols :: UnicodeSupport where
  "MiscellaneousSymbols =
     \<lparr>BitIndex = 46, Name = ''Miscellaneous Symbols'', UnicodeRanges = [''2600-26FF'']\<rparr>"

definition Dingbats :: UnicodeSupport where
  "Dingbats =
     \<lparr>BitIndex = 47, Name = ''Dingbats'', UnicodeRanges = [''2700-27BF'']\<rparr>"

definition CJKSymbolsPunctuation :: UnicodeSupport where
  "CJKSymbolsPunctuation =
     \<lparr>BitIndex = 48, Name = ''CJK Symbols And Punctuation'', UnicodeRanges = [''3000-303F'']\<rparr>"

definition Hiragana :: UnicodeSupport where
  "Hiragana =
     \<lparr>BitIndex = 49, Name = ''Hiragana'', UnicodeRanges = [''3040-309F'']\<rparr>"

definition Katakana :: UnicodeSupport where
  "Katakana =
     \<lparr>BitIndex = 50, Name = ''Katakana & Phonetic Extensions'', UnicodeRanges = [''30A0-30FF'', ''31F0-31FF'']\<rparr>"

definition Bopomofo :: UnicodeSupport where
  "Bopomofo =
     \<lparr>BitIndex = 51, Name = ''Bopomofo & Extended'', UnicodeRanges = [''3100-312F'', ''31A0-31BF'']\<rparr>"

definition HangulCompatibilityJamo :: UnicodeSupport where
  "HangulCompatibilityJamo =
     \<lparr>BitIndex = 52, Name = ''Hangul Compatibility Jamo'', UnicodeRanges = [''3130-318F'']\<rparr>"

definition PhagsPa :: UnicodeSupport where
  "PhagsPa =
     \<lparr>BitIndex = 53, Name = ''Phags-pa'', UnicodeRanges = [''A840-A87F'']\<rparr>"

definition EnclosedCJKLettersMonths :: UnicodeSupport where
  "EnclosedCJKLettersMonths =
     \<lparr>BitIndex = 54, Name = ''Enclosed CJK Letters And Months'', UnicodeRanges = [''3200-32FF'']\<rparr>"

definition CJKCompatibility :: UnicodeSupport where
  "CJKCompatibility =
     \<lparr>BitIndex = 55, Name = ''CJK Compatibility'', UnicodeRanges = [''3300-33FF'']\<rparr>"

definition HangulSyllables :: UnicodeSupport where
  "HangulSyllables =
     \<lparr>BitIndex = 56, Name = ''Hangul Syllables'', UnicodeRanges = [''AC00-D7AF'']\<rparr>"

definition NonPlane0 :: UnicodeSupport where
  "NonPlane0 =
     \<lparr>BitIndex = 57, Name = ''Non-Plane 0'', UnicodeRanges = [''10000-10FFFF'']\<rparr>"

definition Phoenician :: UnicodeSupport where
  "Phoenician =
     \<lparr>BitIndex = 58, Name = ''Phoenician'', UnicodeRanges = [''10900-1091F'']\<rparr>"

definition CJKIdeographsRadicals :: UnicodeSupport where
  "CJKIdeographsRadicals =
     \<lparr>BitIndex = 59, Name = ''CJK Ideographs & Radicals'', UnicodeRanges = [''4E00-9FFF'', ''2E80-2EFF'', ''2F00-2FDF'', ''2FF0-2FFF'', ''3400-4DBF'', ''20000-2A6DF'', ''3190-319F'']\<rparr>"

definition PrivateUseAreaPlane0 :: UnicodeSupport where
  "PrivateUseAreaPlane0 =
     \<lparr>BitIndex = 60, Name = ''Private Use Area  Plane 0'', UnicodeRanges = [''E000-F8FF'']\<rparr>"

definition CJKStrokes :: UnicodeSupport where
  "CJKStrokes =
     \<lparr>BitIndex = 61, Name = ''CJK Strokes'', UnicodeRanges = [''31C0-31EF'', ''F900-FAFF'', ''2F800-2FA1F'']\<rparr>"

definition AlphabeticPresentationForms :: UnicodeSupport where
  "AlphabeticPresentationForms =
     \<lparr>BitIndex = 62, Name = ''Alphabetic Presentation Forms'', UnicodeRanges = [''FB00-FB4F'']\<rparr>"

definition ArabicPresentationFormsA :: UnicodeSupport where
  "ArabicPresentationFormsA =
     \<lparr>BitIndex = 63, Name = ''Arabic Presentation Forms-A'', UnicodeRanges = [''FB50-FDFF'']\<rparr>"

definition CombiningHalfMarks :: UnicodeSupport where
  "CombiningHalfMarks =
     \<lparr>BitIndex = 64, Name = ''Combining Half Marks'', UnicodeRanges = [''FE20-FE2F'']\<rparr>"

definition VerticalForms :: UnicodeSupport where
  "VerticalForms =
     \<lparr>BitIndex = 65, Name = ''Vertical Forms'', UnicodeRanges = [''FE10-FE1F'', ''FE30-FE4F'']\<rparr>"

definition SmallFormVariants :: UnicodeSupport where
  "SmallFormVariants =
     \<lparr>BitIndex = 66, Name = ''Small Form Variants'', UnicodeRanges = [''FE50-FE6F'']\<rparr>"

definition ArabicPresentationFormsB :: UnicodeSupport where
  "ArabicPresentationFormsB =
     \<lparr>BitIndex = 67, Name = ''Arabic Presentation Forms-B'', UnicodeRanges = [''FE70-FEFF'']\<rparr>"

definition HalfwidthFullwidthForms :: UnicodeSupport where
  "HalfwidthFullwidthForms =
     \<lparr>BitIndex = 68, Name = ''Halfwidth And Fullwidth Forms'', UnicodeRanges = [''FF00-FFEF'']\<rparr>"

definition Specials :: UnicodeSupport where
  "Specials =
     \<lparr>BitIndex = 69, Name = ''Specials'', UnicodeRanges = [''FFF0-FFFF'']\<rparr>"

definition Tibetan :: UnicodeSupport where
  "Tibetan =
     \<lparr>BitIndex = 70, Name = ''Tibetan'', UnicodeRanges = [''0F00-0FFF'']\<rparr>"

definition Syriac :: UnicodeSupport where
  "Syriac =
     \<lparr>BitIndex = 71, Name = ''Syriac'', UnicodeRanges = [''0700-074F'']\<rparr>"

definition Thaana :: UnicodeSupport where
  "Thaana =
     \<lparr>BitIndex = 72, Name = ''Thaana'', UnicodeRanges = [''0780-07BF'']\<rparr>"

definition Sinhala :: UnicodeSupport where
  "Sinhala =
     \<lparr>BitIndex = 73, Name = ''Sinhala'', UnicodeRanges = [''0D80-0DFF'']\<rparr>"

definition Myanmar :: UnicodeSupport where
  "Myanmar =
     \<lparr>BitIndex = 74, Name = ''Myanmar'', UnicodeRanges = [''1000-109F'']\<rparr>"

definition Ethiopic :: UnicodeSupport where
  "Ethiopic =
     \<lparr>BitIndex = 75, Name = ''Ethiopic'', UnicodeRanges = [''1200-137F'', ''1380-139F'', ''2D80-2DDF'']\<rparr>"

definition Cherokee :: UnicodeSupport where
  "Cherokee =
     \<lparr>BitIndex = 76, Name = ''Cherokee'', UnicodeRanges = [''13A0-13FF'']\<rparr>"

definition UnifiedCanadianAboriginalSyllabics :: UnicodeSupport where
  "UnifiedCanadianAboriginalSyllabics =
     \<lparr>BitIndex = 77, Name = ''Unified Canadian Aboriginal Syllabics'', UnicodeRanges = [''1400-167F'']\<rparr>"

definition Runic :: UnicodeSupport where
  "Runic =
     \<lparr>BitIndex = 79, Name = ''Runic'', UnicodeRanges = [''16A0-16FF'']\<rparr>"

definition Khmer :: UnicodeSupport where
  "Khmer =
     \<lparr>BitIndex = 80, Name = ''Khmer'', UnicodeRanges = [''1780-17FF'', ''19E0-19FF'']\<rparr>"

definition Mongolian :: UnicodeSupport where
  "Mongolian =
     \<lparr>BitIndex = 81, Name = ''Mongolian'', UnicodeRanges = [''1800-18AF'']\<rparr>"

definition BraillePatterns :: UnicodeSupport where
  "BraillePatterns =
     \<lparr>BitIndex = 82, Name = ''Braille Patterns'', UnicodeRanges = [''2800-28FF'']\<rparr>"

definition YiSyllablesRadicals :: UnicodeSupport where
  "YiSyllablesRadicals =
     \<lparr>BitIndex = 83, Name = ''Yi Syllables & Radicals'', UnicodeRanges = [''A000-A48F'', ''A490-A4CF'']\<rparr>"

definition TagalogRelated :: UnicodeSupport where
  "TagalogRelated =
     \<lparr>BitIndex = 84, Name = ''Tagalog And Related'', UnicodeRanges = [''1700-171F'', ''1720-173F'', ''1740-175F'', ''1760-177F'']\<rparr>"

definition OldItalic :: UnicodeSupport where
  "OldItalic =
     \<lparr>BitIndex = 85, Name = ''Old Italic'', UnicodeRanges = [''10300-1032F'']\<rparr>"

definition Gothic :: UnicodeSupport where
  "Gothic =
     \<lparr>BitIndex = 86, Name = ''Gothic'', UnicodeRanges = [''10330-1034F'']\<rparr>"

definition Deseret :: UnicodeSupport where
  "Deseret =
     \<lparr>BitIndex = 87, Name = ''Deseret'', UnicodeRanges = [''10400-1044F'']\<rparr>"

definition MusicalSymbols :: UnicodeSupport where
  "MusicalSymbols =
     \<lparr>BitIndex = 88, Name = ''Sinhala'', UnicodeRanges = [''1D000-1D0FF'', ''1D100-1D1FF'', ''1D200-1D24F'']\<rparr>"

definition MathematicalAlphanumericSymbols :: UnicodeSupport where
  "MathematicalAlphanumericSymbols =
     \<lparr>BitIndex = 89, Name = ''Mathematical Alphanumeric Symbols'', UnicodeRanges = [''1D400-1D7FF'']\<rparr>"

definition PrivateUsePlane1516 :: UnicodeSupport where
  "PrivateUsePlane1516 =
     \<lparr>BitIndex = 90, Name = ''Private Use (plane 15 & 16)'', UnicodeRanges = [''F0000-FFFFD'', ''100000-10FFFD'']\<rparr>"

definition VariationSelectors :: UnicodeSupport where
  "VariationSelectors =
     \<lparr>BitIndex = 91, Name = ''Variation Selectors'', UnicodeRanges = [''FE00-FE0F'', ''E0100-E01EF'']\<rparr>"

definition Tags :: UnicodeSupport where
  "Tags =
     \<lparr>BitIndex = 92, Name = ''Tags'', UnicodeRanges = [''E0000-E007F'']\<rparr>"

definition Limbu :: UnicodeSupport where
  "Limbu =
     \<lparr>BitIndex = 93, Name = ''Limbu'', UnicodeRanges = [''1900-194F'']\<rparr>"

definition TaiLe :: UnicodeSupport where
  "TaiLe =
     \<lparr>BitIndex = 94, Name = ''Tai Le'', UnicodeRanges = [''1950-197F'']\<rparr>"

definition NewTaiLue :: UnicodeSupport where
  "NewTaiLue =
     \<lparr>BitIndex = 95, Name = ''New Tai Lue'', UnicodeRanges = [''1980-19DF'']\<rparr>"

definition Buginese :: UnicodeSupport where
  "Buginese =
     \<lparr>BitIndex = 96, Name = ''Buginese'', UnicodeRanges = [''1A00-1A1F'']\<rparr>"

definition Glagolitic :: UnicodeSupport where
  "Glagolitic =
     \<lparr>BitIndex = 97, Name = ''Glagolitic'', UnicodeRanges = [''2C00-2C5F'']\<rparr>"

definition Tifinagh :: UnicodeSupport where
  "Tifinagh =
     \<lparr>BitIndex = 98, Name = ''Tifinagh'', UnicodeRanges = [''2D30-2D7F'']\<rparr>"

definition YijingHexagramSymbols :: UnicodeSupport where
  "YijingHexagramSymbols =
     \<lparr>BitIndex = 99, Name = ''Yijing Hexagram Symbols'', UnicodeRanges = [''4DC0-4DFF'']\<rparr>"

definition SylotiNagri :: UnicodeSupport where
  "SylotiNagri =
     \<lparr>BitIndex = 100, Name = ''Syloti Nagri'', UnicodeRanges = [''A800-A82F'']\<rparr>"

definition LinearBAegean :: UnicodeSupport where
  "LinearBAegean =
     \<lparr>BitIndex = 101, Name = ''Linear B Syllabary & Aegean'', UnicodeRanges = [''10000-1007F'', ''10080-100FF'', ''10100-1013F'']\<rparr>"

definition AncientGreekNumbers :: UnicodeSupport where
  "AncientGreekNumbers =
     \<lparr>BitIndex = 102, Name = ''Ancient Greek Numbers'', UnicodeRanges = [''10140-1018F'']\<rparr>"

definition Ugaritic :: UnicodeSupport where
  "Ugaritic =
     \<lparr>BitIndex = 103, Name = ''Ugaritic'', UnicodeRanges = [''10380-1039F'']\<rparr>"

definition OldPersian :: UnicodeSupport where
  "OldPersian =
     \<lparr>BitIndex = 104, Name = ''Old Persian'', UnicodeRanges = [''103A0-103DF'']\<rparr>"

definition Shavian :: UnicodeSupport where
  "Shavian =
     \<lparr>BitIndex = 105, Name = ''Shavian'', UnicodeRanges = [''10450-1047F'']\<rparr>"

definition Osmanya :: UnicodeSupport where
  "Osmanya =
     \<lparr>BitIndex = 106, Name = ''Osmanya'', UnicodeRanges = [''10480-104AF'']\<rparr>"

definition CypriotSyllabary :: UnicodeSupport where
  "CypriotSyllabary =
     \<lparr>BitIndex = 107, Name = ''Cypriot Syllabary'', UnicodeRanges = [''10800-1083F'']\<rparr>"

definition Kharoshthi :: UnicodeSupport where
  "Kharoshthi =
     \<lparr>BitIndex = 108, Name = ''Kharoshthi'', UnicodeRanges = [''10A00-10A5F'']\<rparr>"

definition TaiXuanJingSymbols :: UnicodeSupport where
  "TaiXuanJingSymbols =
     \<lparr>BitIndex = 109, Name = ''Tai Xuan Jing Symbols'', UnicodeRanges = [''1D300-1D35F'']\<rparr>"

definition Cuneiform :: UnicodeSupport where
  "Cuneiform =
     \<lparr>BitIndex = 110, Name = ''Cuneiform'', UnicodeRanges = [''12000-123FF'', ''12400-1247F'']\<rparr>"

definition CountingRodNumerals :: UnicodeSupport where
  "CountingRodNumerals =
     \<lparr>BitIndex = 111, Name = ''Counting Rod Numerals'', UnicodeRanges = [''1D360-1D37F'']\<rparr>"

definition Sundanese :: UnicodeSupport where
  "Sundanese =
     \<lparr>BitIndex = 112, Name = ''Sundanese'', UnicodeRanges = [''1B80-1BBF'']\<rparr>"

definition Lepcha :: UnicodeSupport where
  "Lepcha =
     \<lparr>BitIndex = 113, Name = ''Lepcha'', UnicodeRanges = [''1C00-1C4F'']\<rparr>"

definition OlChiki :: UnicodeSupport where
  "OlChiki =
     \<lparr>BitIndex = 114, Name = ''Ol Chiki'', UnicodeRanges = [''1C50-1C7F'']\<rparr>"

definition Saurashtra :: UnicodeSupport where
  "Saurashtra =
     \<lparr>BitIndex = 115, Name = ''Saurashtra'', UnicodeRanges = [''A880-A8DF'']\<rparr>"

definition KayahLi :: UnicodeSupport where
  "KayahLi =
     \<lparr>BitIndex = 116, Name = ''Kayah Li'', UnicodeRanges = [''A900-A92F'']\<rparr>"

definition Rejang :: UnicodeSupport where
  "Rejang =
     \<lparr>BitIndex = 117, Name = ''Rejang'', UnicodeRanges = [''A930-A95F'']\<rparr>"

definition Cham :: UnicodeSupport where
  "Cham =
     \<lparr>BitIndex = 118, Name = ''Cham'', UnicodeRanges = [''AA00-AA5F'']\<rparr>"

definition AncientSymbols :: UnicodeSupport where
  "AncientSymbols =
     \<lparr>BitIndex = 119, Name = ''Ancient Symbols'', UnicodeRanges = [''10190-101CF'']\<rparr>"

definition PhaistosDisc :: UnicodeSupport where
  "PhaistosDisc =
     \<lparr>BitIndex = 120, Name = ''Phaistos Disc'', UnicodeRanges = [''101D0-101FF'']\<rparr>"

definition CarianLycianLydian :: UnicodeSupport where
  "CarianLycianLydian =
     \<lparr>BitIndex = 121, Name = ''Carian Lycian Lydian'', UnicodeRanges = [''102A0-102DF'', ''10280-1029F'', ''10920-1093F'']\<rparr>"

definition DominoMahjong :: UnicodeSupport where
  "DominoMahjong =
     \<lparr>BitIndex = 122, Name = ''Domino & Mahjong Tiles'', UnicodeRanges = [''1F030-1F09F'', ''1F000-1F02F'']\<rparr>"

text \<open>
  The source tree holds \<open>table_os2.go\<close> in two revisions that differ in the catalog only:
  \<open>src/sfnt/table_os2.go\<close> declares the entries for bits 0 to 39, and the revision carried
  behind \<open>src/sfnt/table_fvar.go\<close> goes on to bit 122 (bit 78 has no entry). Each names its
  list \<open>SupportedUnicodeRanges\<close>; the shorter list is a prefix of the longer one.
\<close>

definition SupportedUnicodeRanges :: "UnicodeSupport list" where
  "SupportedUnicodeRanges =
     [BasicLatin, Latin1Supplement, LatinExtendedA, LatinExtendedB, IPAPhonetic,
      SpacingModifierLetters, CombiningDiacriticalMarks, GreekCoptic, Coptic, Cyrillic,
      Armenian, Hebrew, Arabic, Vai, NKo, Devanagari, Bengali, Gurmukhi, Gujarati, Oriya,
      Tamil, Telugu, Kannada, Malayalam, Thai, Lao, Georgian, Balinese, HangulJamo,
      LatinExtendedAdditional, GreekExtended, GeneralPunctuation, SuperAndSubScripts,
      CurrencySymbols, CDMSymbols, LetterlikeSymbols, NumberForms, Arrows,
      MathematicalOperators, MiscellaneousTechnical]"

definition SupportedUnicodeRanges_122 :: "UnicodeSupport list" where
  "SupportedUnicodeRanges_122 =
     [BasicLatin, Latin1Supplement, LatinExtendedA, LatinExtendedB, IPAPhonetic,
      SpacingModifierLetters, CombiningDiacriticalMarks, GreekCoptic, Coptic, Cyrillic,
      Armenian, Hebrew, Arabic, Vai, NKo, Devanagari, Bengali, Gurmukhi, Gujarati, Oriya,
      Tamil, Telugu, Kannada, Malayalam, Thai, Lao, Georgian, Balinese, HangulJamo,
      LatinExtendedAdditional, GreekExtended, GeneralPunctuation, SuperAndSubScripts,
      CurrencySymbols, CDMSymbols, LetterlikeSymbols, NumberForms, Arrows,
      MathematicalOperators, MiscellaneousTechnical, ControlPictures,
      OpticalCharacterRecognition, EnclosedAlphanumerics, BoxDrawing, BlockElements,
      GeometricShapes, MiscellaneousSymbols, Dingbats, CJKSymbolsPunctuation, Hiragana,
      Katakana, Bopomofo, HangulCompatibilityJamo, PhagsPa, EnclosedCJKLettersMonths,
      CJKCompatibility, HangulSyllables, NonPlane0, Phoenician, CJKIdeographsRadicals,
      PrivateUseAreaPlane0, CJKStrokes, AlphabeticPresentationForms,
      ArabicPresentationFormsA, CombiningHalfMarks, SmallFormVariants, VerticalForms,
      ArabicPresentationFormsB, HalfwidthFullwidthForms, Specials, Tibetan, Syriac, Thaana,
      Sinhala, Myanmar, Ethiopic, Cherokee, UnifiedCanadianAboriginalSyllabics, Runic,
      Khmer, Mongolian, YiSyllablesRadicals, BraillePatterns, TagalogRelated, OldItalic,
      Gothic, MusicalSymbols, Deseret, MathematicalAlphanumericSymbols, PrivateUsePlane1516,
      VariationSelectors, Tags, Limbu, TaiLe, NewTaiLue, Glagolitic, Tifinagh, Buginese,
      YijingHexagramSymbols, SylotiNagri, LinearBAegean, AncientGreekNumbers, Ugaritic,
      OldPersian, Shavian, Osmanya, CypriotSyllabary, Kharoshthi, TaiXuanJingSymbols,
      Cuneiform, CountingRodNumerals, Sundanese, Lepcha, OlChiki, Saurashtra, KayahLi,
      Rejang, Cham, AncientSymbols, PhaistosDisc, CarianLycianLydian, DominoMahjong]"

text \<open>
  The two loops of \<open>UnicodeRanges\<close>: the inner one appends \<open>"U+" + r\<close> for every sub-range of
  one entry, the outer one ranges over a catalog. A panic in \<open>isSupported\<close> ends the call
  (\<open>None\<close>).
\<close>

definition appendRanges :: "string list \<Rightarrow> UnicodeSupport \<Rightarrow> string list" where
  "appendRanges ranges unicodeRange =
     foldl (\<lambda>ranges r. ranges @ [''U+'' @ r]) ranges
       (UnicodeSupport.UnicodeRanges unicodeRange)"

fun rangesOver :: "UnicodeSupport list \<Rightarrow> uint32x4 \<Rightarrow> string list \<Rightarrow> string list option" where
  "rangesOver [] m ranges = Some ranges"
| "rangesOver (unicodeRange # rest) m ranges =
     (case isSupported unicodeRange m of
        None \<Rightarrow> None
      | Some isSupp \<Rightarrow>
          rangesOver rest m (if isSupp then appendRanges ranges unicodeRange else ranges))"

definition UnicodeRanges :: "TableOS2 \<Rightarrow> string list option" where
  "UnicodeRanges t =
     rangesOver SupportedUnicodeRanges (UlUnicodeRange (TableOs2Original t)) []"

definition UnicodeRanges_122 :: "TableOS2 \<Rightarrow> string list option" where
  "UnicodeRanges_122 t =
     rangesOver SupportedUnicodeRanges_122 (UlUnicodeRange (TableOs2Original t)) []"

text \<open>
  The spec's test of bit \<open>b\<close> of the 128-bit bitmap, in its words:
  \<open>(bitmap[b / 32] >> (b % 32)) & 1\<close> is 1.
\<close>

definition spec_bit_set :: "uint32x4 \<Rightarrow> int \<Rightarrow> bool" where
  "spec_bit_set bitmap b =
     (case index4 bitmap (b div 32) of
        None \<Rightarrow> False
      | Some w \<Rightarrow> (drop_bit (nat (b mod 32)) w AND 1) = 1)"

text \<open>
  The spec's result: the sub-ranges, each behind \<open>U+\<close>, of the entries whose bit is set, in
  the order of the catalog.
\<close>

definition spec_ranges :: "UnicodeSupport list \<Rightarrow> uint32x4 \<Rightarrow> string list" where
  "spec_ranges catalog bitmap =
     concat (map (\<lambda>e. map (\<lambda>r. ''U+'' @ r) (UnicodeSupport.UnicodeRanges e))
               (filter (\<lambda>e. spec_bit_set bitmap (BitIndex e)) catalog))"

section \<open>The fvar table\<close>

record FvarHeader =
  MajorVersion :: uint16
  MinorVersion :: uint16
  OffsetToData :: uint16
  CountSizePairs :: uint16
  AxisCount :: uint16
  AxisSize :: uint16
  InstanceCount :: uint16
  InstanceSize :: uint16

record VariationAxis =
  AxisTag :: uint32
  MinValue :: fixed
  DefaultValue :: fixed
  MaxValue :: fixed
  Flags :: uint16
  NameID :: NameID

text \<open>
  A slice of pointers is the list of the values pointed to (the parser shares none of them),
  the nil slice the empty list, and a pointer that may be nil an option.
\<close>

record InstanceWithoutPSName =
  NameID :: NameID
  Flags :: uint16
  Coord :: "fixed list"

record Instance =
  NameID :: NameID
  Flags :: uint16
  Coord :: "fixed list"
  PsNameID :: "NameID option"

record TableFvar =
  baseTable :: baseTable
  Header :: FvarHeader
  Axis :: "VariationAxis list"
  Instance :: "Instance list"
  bytes :: bytes

definition Bytes_Fvar :: "TableFvar \<Rightarrow> bytes" where
  "Bytes_Fvar t = TableFvar.bytes t"

definition T_FvarHeader :: gotype where
  "T_FvarHeader = Struct [Uint16, Uint16, Uint16, Uint16, Uint16, Uint16, Uint16, Uint16]"

definition T_fixed :: gotype where
  "T_fixed = Struct [Int16, Uint16]"

definition T_VariationAxis :: gotype where
  "T_VariationAxis = Struct [Uint32, T_fixed, T_fixed, T_fixed, Uint16, Uint16]"

definition T_Instance :: gotype where
  "T_Instance = Struct [Uint16, Uint16, Slice (Pointer T_fixed), Pointer Uint16]"

definition T_InstanceWithoutPSName :: gotype where
  "T_InstanceWithoutPSName = Struct [Uint16, Uint16, Slice (Pointer T_fixed)]"

definition value_FvarHeader :: "bytes \<Rightarrow> FvarHeader" where
  "value_FvarHeader bs =
     \<lparr>MajorVersion = u16 bs 0, MinorVersion = u16 bs 2, OffsetToData = u16 bs 4,
      CountSizePairs = u16 bs 6, AxisCount = u16 bs 8, AxisSize = u16 bs 10,
      InstanceCount = u16 bs 12, InstanceSize = u16 bs 14\<rparr>"

definition value_fixed :: "bytes \<Rightarrow> nat \<Rightarrow> fixed" where
  "value_fixed bs off = \<lparr>Major = u16 bs off, Minor = u16 bs (off + 2)\<rparr>"

definition value_VariationAxis :: "bytes \<Rightarrow> VariationAxis" where
  "value_VariationAxis bs =
     \<lparr>AxisTag = u32 bs 0, MinValue = value_fixed bs 4, DefaultValue = value_fixed bs 8,
      MaxValue = value_fixed bs 12, VariationAxis.Flags = u16 bs 16,
      VariationAxis.NameID = u16 bs 18\<rparr>"

text \<open>
  The decoder, had it been given the bytes of an instance record, fills a slice element by
  element up to the length the slice already has, and has no case for a pointer: in a fresh
  variable the nil slice and the nil pointer stay as they are. \<open>binary.Read\<close> refuses both
  struct types before it gets there, so these two are never evaluated by the parser.
\<close>

definition value_InstanceWithoutPSName :: "bytes \<Rightarrow> InstanceWithoutPSName" where
  "value_InstanceWithoutPSName bs =
     \<lparr>InstanceWithoutPSName.NameID = u16 bs 0, InstanceWithoutPSName.Flags = u16 bs 2,
      InstanceWithoutPSName.Coord = []\<rparr>"

definition value_Instance :: "bytes \<Rightarrow> Instance" where
  "value_Instance bs = \<lparr>NameID = u16 bs 0, Flags = u16 bs 2, Coord = [], PsNameID = None\<rparr>"

text \<open>
  \<open>types.Uint16\<close> and \<open>types.Int16\<close> are constants of package go/types, of type
  \<open>types.BasicKind\<close>, which is an \<open>int\<close>: \<open>unsafe.Sizeof\<close> of either is the size of an
  \<open>int\<close>, 8 bytes on a 64-bit target, not the 2 bytes of a 16-bit field.
\<close>

definition Sizeof_BasicKind :: uint16 where
  "Sizeof_BasicKind = 8"

definition noPsNameIdVariant :: uint16 where
  "noPsNameIdVariant = 2 * Sizeof_BasicKind"

definition invariant :: uint16 where
  "invariant = Sizeof_BasicKind + Sizeof_BasicKind"

text \<open>The axis loop, \<open>n\<close> rounds to go, appending to \<open>table.Axis\<close>.\<close>

fun readAxes :: "nat \<Rightarrow> bytes \<Rightarrow> VariationAxis list \<Rightarrow> error + (VariationAxis list \<times> bytes)" where
  "readAxes 0 r axes = Inr (axes, r)"
| "readAxes (Suc n) r axes =
     (case binary_Read r T_VariationAxis ''*sfnt.VariationAxis'' of
        Inl err \<Rightarrow> Inl err
      | Inr (bs, r') \<Rightarrow> readAxes n r' (axes @ [value_VariationAxis bs]))"

text \<open>The instance loop, \<open>n\<close> rounds to go, appending to \<open>table.Instance\<close>.\<close>

fun readInstances ::
  "FvarHeader \<Rightarrow> nat \<Rightarrow> bytes \<Rightarrow> Instance list \<Rightarrow> error + (Instance list \<times> bytes)" where
  "readInstances header 0 r insts = Inr (insts, r)"
| "readInstances header (Suc n) r insts =
     (if InstanceSize header = noPsNameIdVariant + invariant then
        (case binary_Read r T_InstanceWithoutPSName ''*sfnt.InstanceWithoutPSName'' of
           Inl err \<Rightarrow> Inl err
         | Inr (bs, r') \<Rightarrow>
             (let inst = value_InstanceWithoutPSName bs in
              readInstances header n r'
                (insts @ [\<lparr>NameID = InstanceWithoutPSName.NameID inst,
                           Flags = InstanceWithoutPSName.Flags inst,
                           Coord = InstanceWithoutPSName.Coord inst,
                           PsNameID = None\<rparr>])))
      else
        (case binary_Read r T_Instance ''*sfnt.Instance'' of
           Inl err \<Rightarrow> Inl err
         | Inr (bs, r') \<Rightarrow>
             (let inst = value_Instance bs in
              readInstances header n r'
                (insts @ [\<lparr>NameID = NameID inst, Flags = Flags inst, Coord = Coord inst,
                           PsNameID = PsNameID inst\<rparr>]))))"

definition parseTableFvar :: "Tag \<Rightarrow> bytes \<Rightarrow> error + TableFvar" where
  "parseTableFvar tag buf =
     (case binary_Read buf T_FvarHeader ''*sfnt.FvarHeader'' of
        Inl err \<Rightarrow> Inl err
      | Inr (hb, r) \<Rightarrow>
          (let header = value_FvarHeader hb in
           (case readAxes (unat (AxisCount header)) r [] of
              Inl err \<Rightarrow> Inl err
            | Inr (axes, r') \<Rightarrow>
                (case readInstances header (unat (InstanceCount header)) r' [] of
                   Inl err \<Rightarrow> Inl err
                 | Inr (insts, r'') \<Rightarrow>
                     Inr \<lparr>baseTable = tag, Header = header, Axis = axes, Instance = insts,
                          bytes = buf\<rparr>))))"

text \<open>
  The two instance-record sizes of the spec: the byte widths of the fixed fields (NameID and
  Flags, 2 bytes each) plus 4 bytes for each axis, and 2 bytes more with the PostScript
  NameID.
\<close>

definition spec_sizeWithoutPsName :: "uint16 \<Rightarrow> nat" where
  "spec_sizeWithoutPsName axisCount = 2 + 2 + unat axisCount * 4"

definition spec_sizeWithPsName :: "uint16 \<Rightarrow> nat" where
  "spec_sizeWithPsName axisCount = spec_sizeWithoutPsName axisCount + 2"

section \<open>Example tables and buffers\<close>

text \<open>The zero values of the OS/2 structs, and a table that is zero but for its weight class.\<close>

definition zero_Panose :: Panose where
  "zero_Panose =
     \<lparr>BFamilyType = 0, BSerifStyle = 0, BWeight = 0, BProportion = 0, BContrast = 0,
      BStrokeVariation = 0, BArmStyle = 0, BLetterform = 0, BMidline = 0, BXHeight = 0\<rparr>"

definition zero_TableOs2Original :: TableOs2Original where
  "zero_TableOs2Original =
     \<lparr>Version = 0, XAvgCharWidth = 0, USWeightClass = 0, USWidthClass = 0, FSType = 0,
      YSubscriptXSize = 0, YSubscriptYSize = 0, YSubscriptXOffset = 0, YSubscriptYOffset = 0,
      YSuperscriptXSize = 0, YSuperscriptYSize = 0, YSuperscriptXOffset = 0,
      YSuperscriptYOffset = 0, YStrikeoutSize = 0, YStrikeoutPosition = 0, SFamilyClass = 0,
      Panose = zero_Panose, UlUnicodeRange = (0, 0, 0, 0), AchVendID = 0, FsSelection = 0,
      FsFirstCharIndex = 0, FsLastCharIndex = 0\<rparr>"

definition zero_TableOS2 :: TableOS2 where
  "zero_TableOS2 =
     \<lparr>TableOS2.baseTable = 0, TableOs2Original = zero_TableOs2Original,
      TableOs2AdditionalFields = zero_TableOs2AdditionalFields, TableOS2.bytes = []\<rparr>"

definition withWeight :: "uint16 \<Rightarrow> TableOS2" where
  "withWeight w =
     zero_TableOS2\<lparr>TableOs2Original := zero_TableOs2Original\<lparr>USWeightClass := w\<rparr>\<rparr>"

text \<open>
  An OS/2 fixed block of exactly 68 bytes (version 4, weight class 400, selection flags
  \<open>0x21\<close>), the same block cut one byte short, and followed by a 32-byte additional block
  whose first two fields are 950 and -200.
\<close>

definition os2_fixed :: bytes where
  "os2_fixed =
     [0, 4, 2, 0x26, 0x01, 0x90, 0, 5] @ replicate 54 0 @ [0, 0x21, 0, 0x20, 0xFF, 0xFD]"

definition os2_short :: bytes where
  "os2_short = take 67 os2_fixed"

definition os2_full :: bytes where
  "os2_full = os2_fixed @ [0x03, 0xB6, 0xFF, 0x38] @ replicate 28 1"

text \<open>
  An fvar header (version 1.0, axis records of 20 bytes) with the given counts and instance
  size, and the record of a weight axis from 100 to 900 with default 400.
\<close>

definition fvar_header :: "uint8 \<Rightarrow> uint8 \<Rightarrow> uint8 \<Rightarrow> bytes" where
  "fvar_header axisCount instanceCount instanceSize =
     [0, 1, 0, 0, 0, 16, 0, 2, 0, axisCount, 0, 20, 0, instanceCount, 0, instanceSize]"

definition wght_axis :: bytes where
  "wght_axis =
     [0x77, 0x67, 0x68, 0x74, 0, 100, 0, 0, 0x01, 0x90, 0, 0, 0x03, 0x84, 0, 0, 0, 0,
      0x01, 0x00]"

text \<open>
  One axis and no instance; one axis and one instance record of \<open>4 + 1 * 4\<close> bytes, the
  size of a record without the PostScript NameID; no axis, no instance and the instance
  size 7, which is neither \<open>4\<close> nor \<open>6\<close>.
\<close>

definition fvar_axes_only :: bytes where
  "fvar_axes_only = fvar_header 1 0 8 @ wght_axis"

definition fvar_one_instance :: bytes where
  "fvar_one_instance = fvar_header 1 1 8 @ wght_axis @ [0x01, 0x01, 0, 0, 0x02, 0xBC, 0, 0]"

definition fvar_odd_size :: bytes where
  "fvar_odd_size = fvar_header 0 0 7"

text \<open>A table that is zero but for its Unicode-range bitmap.\<close>

definition withUnicodeRange :: "uint32x4 \<Rightarrow> TableOS2" where
  "withUnicodeRange m =
     zero_TableOS2\<lparr>TableOs2Original := zero_TableOs2Original\<lparr>UlUnicodeRange := m\<rparr>\<rparr>"

section \<open>Properties of the OS/2 decoder\<close>

subsection \<open>Style label\<close>

text \<open>Each predicate compares a one-bit mask; that is the test of the bit itself.\<close>

lemma and_bit_eq: "n < 16 \<Longrightarrow> ((2 ^ n AND (w::16 word)) = 2 ^ n) = bit w n"
proof
  assume n: "n < 16" and e: "2 ^ n AND w = 2 ^ n"
  have "bit (2 ^ n AND w) n" using n by (simp add: e bit_exp_iff)
  then show "bit w n" by (simp add: bit_and_iff)
next
  assume n: "n < 16" and b: "bit w n"
  show "2 ^ n AND w = 2 ^ n"
    by (rule bit_eqI) (use b in \<open>auto simp: bit_and_iff bit_exp_iff\<close>)
qed

lemma IsItalic_bit: "IsItalic t = bit (FsSelection (TableOs2Original t)) 0"
  using and_bit_eq [of 0 "FsSelection (TableOs2Original t)"] by (simp add: IsItalic_def)

lemma IsUnderscore_bit: "IsUnderscore t = bit (FsSelection (TableOs2Original t)) 1"
  using and_bit_eq [of 1 "FsSelection (TableOs2Original t)"] by (simp add: IsUnderscore_def)

lemma IsNegative_bit: "IsNegative t = bit (FsSelection (TableOs2Original t)) 2"
  using and_bit_eq [of 2 "FsSelection (TableOs2Original t)"] by (simp add: IsNegative_def)

lemma IsOutlined_bit: "IsOutlined t = bit (FsSelection (TableOs2Original t)) 3"
  using and_bit_eq [of 3 "FsSelection (TableOs2Original t)"] by (simp add: IsOutlined_def)

lemma IsStrikeout_bit: "IsStrikeout t = bit (FsSelection (TableOs2Original t)) 4"
  using and_bit_eq [of 4 "FsSelection (TableOs2Original t)"] by (simp add: IsStrikeout_def)

lemma IsBold_bit: "IsBold t = bit (FsSelection (TableOs2Original t)) 5"
  using and_bit_eq [of 5 "FsSelection (TableOs2Original t)"] by (simp add: IsBold_def)

lemmas Is_bit =
  IsItalic_bit IsUnderscore_bit IsNegative_bit IsOutlined_bit IsStrikeout_bit IsBold_bit

text \<open>
  Claim C7. Whatever the 16 bits of \<open>FsSelection\<close> are, \<open>FontStyle\<close> returns one of the seven
  labels, and which one is decided by the bits alone, in the order italic (bit 0), bold
  (bit 5), underscore (bit 1), outlined (bit 3), strikeout (bit 4), negative (bit 2); it is
  \<open>normal\<close> when none of the six is set. Bits 6 to 15 and any further set bits of lower
  priority do not matter.
\<close>

theorem FontStyle_priority:
  "FontStyle t =
     (let s = FsSelection (TableOs2Original t) in
      if bit s 0 then ''italic''
      else if bit s 5 then ''bold''
      else if bit s 1 then ''underscore''
      else if bit s 3 then ''outlined''
      else if bit s 4 then ''strikeout''
      else if bit s 2 then ''negative''
      else ''normal'')
   \<and> FontStyle t \<in> {''italic'', ''bold'', ''underscore'', ''outlined'', ''strikeout'',
                      ''negative'', ''normal''}"
  by (simp add: FontStyle_def Is_bit Let_def)

subsection \<open>Weight class\<close>

lemma digit_value_digit: "d < 10 \<Longrightarrow> digit_value (digit d) = Some d"
proof -
  assume "d < 10"
  then have "d \<in> {0, 1, 2, 3, 4, 5, 6, 7, 8, 9}" by auto
  then show ?thesis by (auto simp: digit_def digit_value_def)
qed

lemma digit_zero: "d < 10 \<Longrightarrow> digit d = CHR ''0'' \<Longrightarrow> d = 0"
proof -
  assume "d < 10"
  then have "d \<in> {0, 1, 2, 3, 4, 5, 6, 7, 8, 9}" by auto
  moreover assume "digit d = CHR ''0''"
  ultimately show ?thesis by (auto simp: digit_def)
qed

lemma decimal_value_append:
  "decimal_value (xs @ ys) acc =
     (case decimal_value xs acc of None \<Rightarrow> None | Some v \<Rightarrow> decimal_value ys v)"
  by (induction xs arbitrary: acc) (auto split: option.splits)

text \<open>The digits \<open>utoa\<close> writes denote the number written.\<close>

lemma decimal_value_utoa: "decimal_value (utoa n) 0 = Some n"
proof (induction n rule: utoa.induct)
  case (1 n)
  show ?case
  proof (cases "n < 10")
    case True
    then show ?thesis by (simp add: utoa.simps [of n] digit_value_digit)
  next
    case False
    with 1 have "decimal_value (utoa (n div 10)) 0 = Some (n div 10)" by simp
    with False show ?thesis
      by (simp add: utoa.simps [of n] decimal_value_append digit_value_digit)
  qed
qed

lemma utoa_not_Nil: "utoa n \<noteq> []"
  by (simp add: utoa.simps [of n])

lemma utoa_no_leading_zero: "0 < n \<Longrightarrow> hd (utoa n) \<noteq> CHR ''0''"
proof (induction n rule: utoa.induct)
  case (1 n)
  show ?case
  proof (cases "n < 10")
    case True
    with 1(2) show ?thesis by (auto simp: utoa.simps [of n] dest: digit_zero)
  next
    case False
    then have "0 < n div 10" by simp
    with 1(1) False have "hd (utoa (n div 10)) \<noteq> CHR ''0''" by simp
    with False show ?thesis
      by (simp add: utoa.simps [of n] utoa_not_Nil)
  qed
qed

lemma WeightClass_other:
  assumes "USWeightClass (TableOs2Original t) = w" "unat w = 0 \<or> 9 < unat w"
  shows "WeightClass t = utoa (unat w)"
proof -
  have "w \<noteq> 1" "w \<noteq> 2" "w \<noteq> 3" "w \<noteq> 4" "w \<noteq> 5" "w \<noteq> 6" "w \<noteq> 7" "w \<noteq> 8" "w \<noteq> 9"
    using assms(2) by auto
  then show ?thesis using assms(1) by (simp add: WeightClass_def Itoa_def)
qed

lemma WeightClass_named:
  assumes "USWeightClass (TableOs2Original t) = w" "1 \<le> unat w" "unat w \<le> 9"
  shows "WeightClass t =
    [''Ultra-light'', ''Extra-light'', ''Light'', ''Semi-light'', ''Medium'', ''Semi-bold'',
     ''Bold'', ''Extra-bold'', ''Ultra-bold''] ! (unat w - 1)"
proof -
  have "unat w \<in> {1, 2, 3, 4, 5, 6, 7, 8, 9}" using assms(2,3) by auto
  then have "w \<in> {1, 2, 3, 4, 5, 6, 7, 8, 9}"
    by (simp add: word_unat_eq_iff)
  then show ?thesis using assms(1) by (auto simp add: WeightClass_def)
qed

text \<open>
  Claim C8. With \<open>w\<close> the value of \<open>USWeightClass\<close>: for \<open>w\<close> from 1 to 9, \<open>WeightClass\<close> is the
  \<open>w\<close>-th of the nine names Ultra-light, Extra-light, Light, Semi-light, Medium, Semi-bold,
  Bold, Extra-bold, Ultra-bold; for every other \<open>w\<close> (0, and 10 to 65535) it is the decimal
  string of \<open>w\<close>: digits only, denoting \<open>w\<close>, without a leading zero.
\<close>

theorem WeightClass_buckets:
  "(let w = unat (USWeightClass (TableOs2Original t)) in
      (1 \<le> w \<and> w \<le> 9 \<longrightarrow>
         WeightClass t =
           [''Ultra-light'', ''Extra-light'', ''Light'', ''Semi-light'', ''Medium'',
            ''Semi-bold'', ''Bold'', ''Extra-bold'', ''Ultra-bold''] ! (w - 1)) \<and>
      (w = 0 \<or> 9 < w \<longrightarrow>
         WeightClass t = utoa w \<and> decimal_value (WeightClass t) 0 = Some w \<and>
         (w = 0 \<or> hd (WeightClass t) \<noteq> CHR ''0'')))"
  using WeightClass_named [OF refl, of t] WeightClass_other [OF refl, of t]
  by (auto simp: Let_def decimal_value_utoa utoa_no_leading_zero)

text \<open>The weights 7, 0, 400 and 1000.\<close>

theorem WeightClass_buckets_witness:
  "WeightClass (withWeight 7) = ''Bold'' \<and> WeightClass (withWeight 0) = ''0'' \<and>
   WeightClass (withWeight 400) = ''400'' \<and> WeightClass (withWeight 1000) = ''1000''"
proof -
  have u: "utoa 0 = ''0''" "utoa 400 = ''400''" "utoa 1000 = ''1000''"
    by (simp_all add: utoa.simps digit_def)
  have w: "USWeightClass (TableOs2Original (withWeight x)) = x" for x
    by (simp add: withWeight_def)
  show ?thesis
    using WeightClass_buckets [of "withWeight 7"] WeightClass_buckets [of "withWeight 0"]
      WeightClass_buckets [of "withWeight 400"] WeightClass_buckets [of "withWeight 1000"]
    by (simp add: w u Let_def)
qed

subsection \<open>Decoding the fixed block\<close>

lemma sizeof_TableOs2Original: "sizeof T_TableOs2Original = 68"
  by (simp add: T_TableOs2Original_def T_Panose_def T_Tag_def)

lemma sizeof_TableOs2AdditionalFields: "sizeof T_TableOs2AdditionalFields = 32"
  by (simp add: T_TableOs2AdditionalFields_def)

lemma parseTableOS2_short:
  "length buf < 68 \<Longrightarrow>
     parseTableOS2 tag buf = Inl (if buf = [] then EOF else ErrUnexpectedEOF)"
  by (simp add: parseTableOS2_def binary_Read_def ReadFull_def sizeof_TableOs2Original)

lemma parseTableOS2_long:
  "68 \<le> length buf \<Longrightarrow>
     parseTableOS2 tag buf =
       Inr \<lparr>TableOS2.baseTable = tag,
            TableOs2Original = value_TableOs2Original (take 68 buf),
            TableOs2AdditionalFields = zero_TableOs2AdditionalFields,
            TableOS2.bytes = buf\<rparr>"
  by (auto simp add: parseTableOS2_def binary_Read_def ReadFull_def sizeof_TableOs2Original)

lemma length_os2_fixed: "length os2_fixed = 68"
  by (simp add: os2_fixed_def)

lemma length_os2_short: "length os2_short = 67"
  by (simp add: os2_short_def length_os2_fixed)

lemma length_os2_full: "length os2_full = 100"
  by (simp add: os2_full_def length_os2_fixed)

lemma be_zeros: "be (replicate n 0) = 0"
  by (induction n) (simp_all add: be_def)

text \<open>The zero value of the additional block is what 32 zero bytes decode to.\<close>

lemma zero_is_decoded_zeros:
  "value_TableOs2AdditionalFields (replicate 32 0) = zero_TableOs2AdditionalFields"
  by (simp add: value_TableOs2AdditionalFields_def zero_TableOs2AdditionalFields_def
      u16_def u32_def be_zeros)

text \<open>
  Claim C5, as stated, fails in its last clause. The buffer \<open>os2_fixed\<close> has exactly 68
  bytes and the parser succeeds on it, but the optional trailing fields of the table are not
  absent: each holds 0 (the typographic ascender, the Windows ascent and the upper point
  size are shown), and the block is the very block of the table decoded from \<open>os2_full\<close>,
  a buffer that has the additional block.
\<close>

theorem parseTableOS2_exact_68_counterexample:
  "length os2_fixed = 68 \<and>
   \<not> isl (parseTableOS2 0x4F532F32 os2_fixed) \<and>
   STypoAscender (TableOs2AdditionalFields (projr (parseTableOS2 0x4F532F32 os2_fixed))) = 0 \<and>
   UsWinAscent (TableOs2AdditionalFields (projr (parseTableOS2 0x4F532F32 os2_fixed))) = 0 \<and>
   UsUpperPointSize (TableOs2AdditionalFields (projr (parseTableOS2 0x4F532F32 os2_fixed))) = 0 \<and>
   TableOs2AdditionalFields (projr (parseTableOS2 0x4F532F32 os2_fixed)) =
     TableOs2AdditionalFields (projr (parseTableOS2 0x4F532F32 os2_full))"
  by (simp add: parseTableOS2_long length_os2_fixed length_os2_full
      zero_TableOs2AdditionalFields_def)

text \<open>
  Claim C5, amended. \<open>parseTableOS2\<close> fails exactly on the buffers shorter than 68 bytes,
  and then with a truncation error (\<open>io.EOF\<close> on the empty buffer, \<open>io.ErrUnexpectedEOF\<close>
  otherwise). On a buffer of exactly 68 bytes it succeeds: the fixed block is decoded from
  the whole buffer, and all optional trailing fields hold the zero value of their struct.
\<close>

theorem parseTableOS2_Truncated:
  "(length buf < 68 \<longrightarrow> (\<exists>e. parseTableOS2 tag buf = Inl e \<and> Truncated e)) \<and>
   (68 \<le> length buf \<longrightarrow> \<not> isl (parseTableOS2 tag buf)) \<and>
   (length buf = 68 \<longrightarrow>
      parseTableOS2 tag buf =
        Inr \<lparr>TableOS2.baseTable = tag, TableOs2Original = value_TableOs2Original buf,
             TableOs2AdditionalFields = zero_TableOs2AdditionalFields,
             TableOS2.bytes = buf\<rparr>)"
  by (simp add: parseTableOS2_short parseTableOS2_long Truncated_def)

text \<open>A buffer of 67 bytes and one of 68.\<close>

theorem parseTableOS2_Truncated_witness:
  "isl (parseTableOS2 0x4F532F32 os2_short) \<and>
   Truncated (projl (parseTableOS2 0x4F532F32 os2_short)) \<and>
   \<not> isl (parseTableOS2 0x4F532F32 os2_fixed) \<and>
   TableOs2AdditionalFields (projr (parseTableOS2 0x4F532F32 os2_fixed)) =
     zero_TableOs2AdditionalFields \<and>
   USWeightClass (TableOs2Original (projr (parseTableOS2 0x4F532F32 os2_fixed))) = 400"
proof -
  have w: "USWeightClass (value_TableOs2Original os2_fixed) = 400"
    by (simp add: os2_fixed_def value_TableOs2Original_def u16_def be_def)
  show ?thesis
    using parseTableOS2_Truncated [of os2_short "0x4F532F32"]
      parseTableOS2_Truncated [of os2_fixed "0x4F532F32"]
    by (auto simp: length_os2_short length_os2_fixed w)
qed

subsection \<open>The additional fields\<close>

text \<open>
  Claim C3, as stated, fails. The buffer \<open>os2_full\<close> holds the fixed block and a complete
  additional block whose first field is 950; the parser succeeds, but the table's
  \<open>STypoAscender\<close> is 0 and its additional block is not what the 32 bytes after offset 68
  decode to.
\<close>

theorem parseTableOS2_additional_counterexample:
  "\<not> isl (parseTableOS2 0x4F532F32 os2_full) \<and>
   STypoAscender (TableOs2AdditionalFields (projr (parseTableOS2 0x4F532F32 os2_full))) = 0 \<and>
   STypoAscender (value_TableOs2AdditionalFields (drop 68 os2_full)) = 950 \<and>
   TableOs2AdditionalFields (projr (parseTableOS2 0x4F532F32 os2_full)) \<noteq>
     value_TableOs2AdditionalFields (drop 68 os2_full)"
proof -
  have a: "STypoAscender (value_TableOs2AdditionalFields (drop 68 os2_full)) = 950"
    by (simp add: os2_full_def os2_fixed_def value_TableOs2AdditionalFields_def u16_def be_def)
  have b: "STypoAscender zero_TableOs2AdditionalFields = 0"
    by (simp add: zero_TableOs2AdditionalFields_def)
  have c: "zero_TableOs2AdditionalFields \<noteq> value_TableOs2AdditionalFields (drop 68 os2_full)"
    using a b by auto
  show ?thesis
    using a b c by (simp add: parseTableOS2_long length_os2_full)
qed

text \<open>
  Claim C3, amended. On every buffer of at least 68 bytes \<open>parseTableOS2\<close> succeeds and
  decodes the first 68 bytes only: the fixed block comes from them, the trailing additional
  fields are left at zero, and whatever follows offset 68 (nothing, a part of the additional
  block or all of it) changes nothing in the table but the raw bytes it keeps. So a buffer
  that is shorter after the fixed block is not an error.
\<close>

theorem parseTableOS2_fixed_block_only:
  "68 \<le> length buf \<Longrightarrow>
     \<exists>t. parseTableOS2 tag buf = Inr t \<and>
         TableOs2Original t = value_TableOs2Original (take 68 buf) \<and>
         TableOs2AdditionalFields t = zero_TableOs2AdditionalFields \<and>
         (\<forall>rest. parseTableOS2 tag (take 68 buf @ rest) =
                   Inr (t\<lparr>TableOS2.bytes := take 68 buf @ rest\<rparr>))"
  by (simp add: parseTableOS2_long)

text \<open>The 100 bytes of \<open>os2_full\<close>, and the same table from its first 68 bytes alone.\<close>

theorem parseTableOS2_fixed_block_only_witness:
  "\<exists>t. parseTableOS2 0x4F532F32 os2_full = Inr t \<and>
       TableOs2Original t = value_TableOs2Original os2_fixed \<and>
       TableOs2AdditionalFields t = zero_TableOs2AdditionalFields \<and>
       parseTableOS2 0x4F532F32 os2_fixed = Inr (t\<lparr>TableOS2.bytes := os2_fixed\<rparr>)"
proof -
  have t: "take 68 os2_full = os2_fixed"
    by (simp add: os2_full_def length_os2_fixed)
  from parseTableOS2_fixed_block_only [of os2_full "0x4F532F32"]
  obtain t where p: "parseTableOS2 0x4F532F32 os2_full = Inr t"
    and o: "TableOs2Original t = value_TableOs2Original (take 68 os2_full)"
    and z: "TableOs2AdditionalFields t = zero_TableOs2AdditionalFields"
    and r: "\<forall>rest. parseTableOS2 0x4F532F32 (take 68 os2_full @ rest) =
                   Inr (t\<lparr>TableOS2.bytes := take 68 os2_full @ rest\<rparr>)"
    by (auto simp: length_os2_full)
  from r have "parseTableOS2 0x4F532F32 (take 68 os2_full @ []) =
                   Inr (t\<lparr>TableOS2.bytes := take 68 os2_full @ []\<rparr>)" by blast
  with p o z t show ?thesis by simp
qed

text \<open>
  Claim C4, as stated, fails. The table decoded from the 68 bytes of \<open>os2_fixed\<close>, which
  lack the additional block, has every trailing field filled with 0: its additional block
  equals the one a block of 32 zero bytes decodes to.
\<close>

theorem parseTableOS2_zero_filled_counterexample:
  "\<not> isl (parseTableOS2 0x4F532F32 os2_fixed) \<and>
   TableOs2AdditionalFields (projr (parseTableOS2 0x4F532F32 os2_fixed)) =
     \<lparr>STypoAscender = 0, STypoDescender = 0, STypoLineGap = 0, UsWinAscent = 0,
      UsWinDescent = 0, UlCodePageRange1 = 0, UlCodePageRange2 = 0, SxHeigh = 0,
      SCapHeight = 0, UsDefaultChar = 0, UsBreakChar = 0, UsMaxContext = 0,
      UsLowerPointSize = 0, UsUpperPointSize = 0\<rparr> \<and>
   TableOs2AdditionalFields (projr (parseTableOS2 0x4F532F32 os2_fixed)) =
     value_TableOs2AdditionalFields (replicate 32 0)"
  by (simp add: parseTableOS2_long length_os2_fixed zero_is_decoded_zeros)
     (simp add: zero_TableOs2AdditionalFields_def)

text \<open>
  Claim C4, amended. In every table \<open>parseTableOS2\<close> returns, from a buffer with or without
  the additional block, the optional trailing fields hold the zero value of their struct,
  which is the value a block of zero bytes decodes to: the table has no separate mark for
  an absent block.
\<close>

theorem parseTableOS2_additional_zero:
  "parseTableOS2 tag buf = Inr t \<Longrightarrow>
     TableOs2AdditionalFields t = zero_TableOs2AdditionalFields \<and>
     TableOs2AdditionalFields t = value_TableOs2AdditionalFields (replicate 32 0)"
  by (cases "length buf < 68")
     (auto simp: parseTableOS2_short parseTableOS2_long zero_is_decoded_zeros)

text \<open>The table of \<open>os2_full\<close>, whose buffer has the block.\<close>

theorem parseTableOS2_additional_zero_witness:
  "parseTableOS2 0x4F532F32 os2_full = Inr (projr (parseTableOS2 0x4F532F32 os2_full)) \<and>
   TableOs2AdditionalFields (projr (parseTableOS2 0x4F532F32 os2_full)) =
     zero_TableOs2AdditionalFields"
proof -
  have p: "parseTableOS2 0x4F532F32 os2_full = Inr (projr (parseTableOS2 0x4F532F32 os2_full))"
    by (simp add: parseTableOS2_long length_os2_full)
  from parseTableOS2_additional_zero [OF p] p show ?thesis by simp
qed

subsection \<open>Unicode ranges\<close>

lemma appendRanges_eq:
  "appendRanges ranges e = ranges @ map (\<lambda>r. ''U+'' @ r) (UnicodeSupport.UnicodeRanges e)"
proof -
  have "foldl (\<lambda>ranges r. ranges @ [''U+'' @ r]) acc rs = acc @ map (\<lambda>r. ''U+'' @ r) rs"
    for acc and rs :: "string list"
    by (induction rs arbitrary: acc) simp_all
  then show ?thesis by (simp add: appendRanges_def)
qed

text \<open>Every bit index of either catalog lies in the 128 bits of the bitmap.\<close>

lemma bits_40: "\<forall>e\<in>set SupportedUnicodeRanges. 0 \<le> BitIndex e \<and> BitIndex e < 128"
  by code_simp

lemma bits_122: "\<forall>e\<in>set SupportedUnicodeRanges_122. 0 \<le> BitIndex e \<and> BitIndex e < 128"
  by code_simp

lemma index4_in_range:
  "0 \<le> b \<Longrightarrow> b < 128 \<Longrightarrow> \<exists>w. index4 m (b div 32) = Some w"
proof -
  assume "0 \<le> b" "b < 128"
  then have "b div 32 \<in> {0, 1, 2, 3}" by auto
  then show ?thesis by (auto simp: index4_def split: prod.splits)
qed

text \<open>Masking with the power of two and shifting the bit down test the same bit.\<close>

lemma Exp2_test:
  "k < 32 \<Longrightarrow> ((2 ^ k AND (w::32 word)) \<noteq> 0) = (drop_bit k w AND 1 = 1)"
  by (simp add: and.commute [of "2 ^ k"] and_exp_eq_0_iff_not_bit bit_iff_and_drop_bit_eq_1)

lemma isSupported_spec:
  assumes "0 \<le> BitIndex s" "BitIndex s < 128"
  shows "isSupported s m = Some (spec_bit_set m (BitIndex s))"
proof -
  from index4_in_range [OF assms] obtain w where w: "index4 m (BitIndex s div 32) = Some w"
    by blast
  have d: "BitIndex s sdiv 32 = BitIndex s div 32" "BitIndex s smod 32 = BitIndex s mod 32"
    using assms(1) by (simp_all add: signed_divide_int_def signed_modulo_int_def sgn_if)
  have k: "nat (BitIndex s mod 32) < 32" by simp
  show ?thesis
    using Exp2_test [OF k, of w]
    by (simp add: isSupported_def spec_bit_set_def d w Exp2_uint32_def)
qed

lemma rangesOver_spec:
  "\<forall>e\<in>set catalog. 0 \<le> BitIndex e \<and> BitIndex e < 128 \<Longrightarrow>
     rangesOver catalog m ranges = Some (ranges @ spec_ranges catalog m)"
proof (induction catalog arbitrary: ranges)
  case Nil
  then show ?case by (simp add: spec_ranges_def)
next
  case (Cons e catalog)
  then have e: "isSupported e m = Some (spec_bit_set m (BitIndex e))"
    by (simp add: isSupported_spec)
  from Cons have IH: "rangesOver catalog m acc = Some (acc @ spec_ranges catalog m)" for acc
    by simp
  show ?case
    by (simp add: e IH appendRanges_eq spec_ranges_def)
qed

lemma cyrillic_40:
  "spec_ranges SupportedUnicodeRanges (2 ^ 9, 0, 0, 0) =
     [''U+0400-04FF'', ''U+0500-052F'', ''U+2DE0-2DFF'', ''U+A640-A69F'']"
  by code_simp

lemma cyrillic_122:
  "spec_ranges SupportedUnicodeRanges_122 (2 ^ 9, 0, 0, 0) =
     [''U+0400-04FF'', ''U+0500-052F'', ''U+2DE0-2DFF'', ''U+A640-A69F'']"
  by code_simp

text \<open>
  Bits 12 (Vai), 13 (Arabic) and 82 (Braille Patterns): the catalog lists Arabic before Vai,
  and so does the result.
\<close>

lemma order_122:
  "spec_ranges SupportedUnicodeRanges_122 (0x3000, 0, 0x00040000, 0) =
     [''U+0600-06FF'', ''U+0750-077F'', ''U+A500-A63F'', ''U+2800-28FF'']"
  by code_simp

text \<open>
  Claim C6. For every table, \<open>UnicodeRanges\<close> returns (without a panic) exactly the
  sub-range strings, each behind \<open>U+\<close>, of the catalog entries whose bit \<open>b\<close> has
  \<open>(bitmap[b / 32] >> (b % 32)) & 1 = 1\<close> in \<open>UlUnicodeRange\<close>, in the order in which the
  catalog declares the entries; this holds over the catalog of either revision of the file.
  With bit 9 alone set, the result is the four Cyrillic sub-ranges and nothing else.
\<close>

theorem UnicodeRanges_catalog_order:
  "UnicodeRanges t =
     Some (spec_ranges SupportedUnicodeRanges (UlUnicodeRange (TableOs2Original t))) \<and>
   UnicodeRanges_122 t =
     Some (spec_ranges SupportedUnicodeRanges_122 (UlUnicodeRange (TableOs2Original t))) \<and>
   (UlUnicodeRange (TableOs2Original t) = (2 ^ 9, 0, 0, 0) \<longrightarrow>
      UnicodeRanges t =
        Some [''U+0400-04FF'', ''U+0500-052F'', ''U+2DE0-2DFF'', ''U+A640-A69F''] \<and>
      UnicodeRanges_122 t =
        Some [''U+0400-04FF'', ''U+0500-052F'', ''U+2DE0-2DFF'', ''U+A640-A69F''])"
proof -
  have a: "UnicodeRanges t =
     Some (spec_ranges SupportedUnicodeRanges (UlUnicodeRange (TableOs2Original t)))"
    by (simp add: UnicodeRanges_def rangesOver_spec [OF bits_40])
  have b: "UnicodeRanges_122 t =
     Some (spec_ranges SupportedUnicodeRanges_122 (UlUnicodeRange (TableOs2Original t)))"
    by (simp add: UnicodeRanges_122_def rangesOver_spec [OF bits_122])
  show ?thesis
    unfolding a b using cyrillic_40 cyrillic_122 by simp
qed

text \<open>The bitmap with bit 9 alone, and the one with bits 12, 13 and 82.\<close>

theorem UnicodeRanges_catalog_order_witness:
  "UnicodeRanges (withUnicodeRange (2 ^ 9, 0, 0, 0)) =
     Some [''U+0400-04FF'', ''U+0500-052F'', ''U+2DE0-2DFF'', ''U+A640-A69F''] \<and>
   UnicodeRanges_122 (withUnicodeRange (2 ^ 9, 0, 0, 0)) =
     Some [''U+0400-04FF'', ''U+0500-052F'', ''U+2DE0-2DFF'', ''U+A640-A69F''] \<and>
   UnicodeRanges_122 (withUnicodeRange (0x3000, 0, 0x00040000, 0)) =
     Some [''U+0600-06FF'', ''U+0750-077F'', ''U+A500-A63F'', ''U+2800-28FF'']"
proof -
  have m: "UlUnicodeRange (TableOs2Original (withUnicodeRange x)) = x" for x
    by (simp add: withUnicodeRange_def)
  from UnicodeRanges_catalog_order [of "withUnicodeRange (2 ^ 9, 0, 0, 0)"]
  have c: "UnicodeRanges (withUnicodeRange (2 ^ 9, 0, 0, 0)) =
             Some [''U+0400-04FF'', ''U+0500-052F'', ''U+2DE0-2DFF'', ''U+A640-A69F''] \<and>
           UnicodeRanges_122 (withUnicodeRange (2 ^ 9, 0, 0, 0)) =
             Some [''U+0400-04FF'', ''U+0500-052F'', ''U+2DE0-2DFF'', ''U+A640-A69F'']"
    unfolding m by blast
  from UnicodeRanges_catalog_order [of "withUnicodeRange (0x3000, 0, 0x00040000, 0)"]
  have "UnicodeRanges_122 (withUnicodeRange (0x3000, 0, 0x00040000, 0)) =
          Some (spec_ranges SupportedUnicodeRanges_122 (0x3000, 0, 0x00040000, 0))"
    unfolding m by blast
  with c show ?thesis by (simp only: order_122 simp_thms)
qed

section \<open>Properties of the fvar decoder\<close>

lemma sizeof_FvarHeader: "sizeof T_FvarHeader = 16"
  by (simp add: T_FvarHeader_def)

lemma sizeof_VariationAxis: "sizeof T_VariationAxis = 20"
  by (simp add: T_VariationAxis_def T_fixed_def)

text \<open>The slice of coordinates, and the pointer, leave both instance structs without a size.\<close>

lemma sizeof_Instance: "sizeof T_Instance = -1"
  by (simp add: T_Instance_def)

lemma sizeof_InstanceWithoutPSName: "sizeof T_InstanceWithoutPSName = -1"
  by (simp add: T_InstanceWithoutPSName_def)

lemma read_FvarHeader:
  "binary_Read buf T_FvarHeader nm =
     (if buf = [] then Inl EOF else if length buf < 16 then Inl ErrUnexpectedEOF
      else Inr (take 16 buf, drop 16 buf))"
  by (simp add: binary_Read_def ReadFull_def sizeof_FvarHeader)

lemma read_FvarHeader_ok:
  "16 \<le> length buf \<Longrightarrow>
     binary_Read buf T_FvarHeader nm = Inr (take 16 buf, drop 16 buf)"
  by (auto simp: read_FvarHeader)

lemma read_FvarHeader_short:
  "length buf < 16 \<Longrightarrow>
     binary_Read buf T_FvarHeader nm = Inl (if buf = [] then EOF else ErrUnexpectedEOF)"
  by (auto simp: read_FvarHeader)

lemma read_FvarHeader_Inr:
  "binary_Read buf T_FvarHeader nm = Inr (hb, r) \<Longrightarrow>
     16 \<le> length buf \<and> hb = take 16 buf \<and> r = drop 16 buf"
  by (auto simp: read_FvarHeader split: if_splits)

lemma read_VariationAxis:
  "binary_Read r T_VariationAxis nm =
     (if r = [] then Inl EOF else if length r < 20 then Inl ErrUnexpectedEOF
      else Inr (take 20 r, drop 20 r))"
  by (simp add: binary_Read_def ReadFull_def sizeof_VariationAxis)

lemma read_Instance: "binary_Read r T_Instance nm = Inl (InvalidType nm)"
  by (simp add: binary_Read_def sizeof_Instance)

lemma read_InstanceWithoutPSName:
  "binary_Read r T_InstanceWithoutPSName nm = Inl (InvalidType nm)"
  by (simp add: binary_Read_def sizeof_InstanceWithoutPSName)

text \<open>The first round of the instance loop ends the parse, in either branch.\<close>

lemma readInstances_Suc:
  "readInstances header (Suc n) r insts =
     Inl (InvalidType (if InstanceSize header = noPsNameIdVariant + invariant
                       then ''*sfnt.InstanceWithoutPSName'' else ''*sfnt.Instance''))"
  by (simp add: read_Instance read_InstanceWithoutPSName)

lemma readInstances_Inr:
  "readInstances header n r insts = Inr (insts', r') \<Longrightarrow> n = 0 \<and> insts' = insts \<and> r' = r"
  by (cases n) (simp_all add: readInstances_Suc del: readInstances.simps(2))

lemma readAxes_enough:
  "20 * n \<le> length r \<Longrightarrow>
     \<exists>axes'. readAxes n r axes = Inr (axes', drop (20 * n) r) \<and>
             length axes' = length axes + n"
proof (induction n arbitrary: r axes)
  case 0
  then show ?case by simp
next
  case (Suc n)
  then have "20 * n \<le> length (drop 20 r)" by simp
  from Suc.IH [OF this, of "axes @ [value_VariationAxis (take 20 r)]"] Suc.prems
  show ?case by (auto simp: read_VariationAxis add.commute)
qed

lemma parseTableFvar_short:
  "length buf < 16 \<Longrightarrow>
     parseTableFvar tag buf = Inl (if buf = [] then EOF else ErrUnexpectedEOF)"
  by (simp add: parseTableFvar_def read_FvarHeader_short)

lemma parseTableFvar_long:
  "16 \<le> length buf \<Longrightarrow>
     parseTableFvar tag buf =
       (let header = value_FvarHeader (take 16 buf) in
        (case readAxes (unat (AxisCount header)) (drop 16 buf) [] of
           Inl err \<Rightarrow> Inl err
         | Inr (axes, r') \<Rightarrow>
             (case readInstances header (unat (InstanceCount header)) r' [] of
                Inl err \<Rightarrow> Inl err
              | Inr (insts, r'') \<Rightarrow>
                  Inr \<lparr>TableFvar.baseTable = tag, Header = header, Axis = axes,
                       Instance = insts, TableFvar.bytes = buf\<rparr>)))"
  by (simp add: parseTableFvar_def read_FvarHeader_ok)

text \<open>What every table the parser returns looks like.\<close>

lemma parseTableFvar_Inr:
  assumes "parseTableFvar tag buf = Inr t"
  shows "16 \<le> length buf \<and> Header t = value_FvarHeader (take 16 buf) \<and>
         InstanceCount (Header t) = 0 \<and> Instance t = [] \<and> TableFvar.bytes t = buf \<and>
         TableFvar.baseTable t = tag"
proof -
  let ?h = "value_FvarHeader (take 16 buf)"
  have len: "16 \<le> length buf"
  proof (rule ccontr)
    assume "\<not> 16 \<le> length buf"
    then have "length buf < 16" by simp
    from parseTableFvar_short [OF this] assms show False by simp
  qed
  note p = assms [unfolded parseTableFvar_long [OF len] Let_def]
  from p obtain axes r' where
    ax: "readAxes (unat (AxisCount ?h)) (drop 16 buf) [] = Inr (axes, r')"
    by (cases "readAxes (unat (AxisCount ?h)) (drop 16 buf) []") auto
  from p ax obtain insts r'' where
    ins: "readInstances ?h (unat (InstanceCount ?h)) r' [] = Inr (insts, r'')"
    by (cases "readInstances ?h (unat (InstanceCount ?h)) r' []") auto
  from p ax ins have t: "t = \<lparr>TableFvar.baseTable = tag, Header = ?h, Axis = axes,
                 Instance = insts, TableFvar.bytes = buf\<rparr>"
    by simp
  from readInstances_Inr [OF ins] have "unat (InstanceCount ?h) = 0" "insts = []" by simp_all
  then show ?thesis using t len by (simp add: unat_eq_zero)
qed

lemma parseTableFvar_no_instances:
  assumes "16 \<le> length buf"
    and "InstanceCount (value_FvarHeader (take 16 buf)) = 0"
    and "16 + 20 * unat (AxisCount (value_FvarHeader (take 16 buf))) \<le> length buf"
  shows "\<exists>axes. parseTableFvar tag buf =
           Inr \<lparr>TableFvar.baseTable = tag, Header = value_FvarHeader (take 16 buf),
                Axis = axes, Instance = [], TableFvar.bytes = buf\<rparr> \<and>
           length axes = unat (AxisCount (value_FvarHeader (take 16 buf)))"
proof -
  let ?h = "value_FvarHeader (take 16 buf)"
  from assms(1,3) have "20 * unat (AxisCount ?h) \<le> length (drop 16 buf)" by simp
  from readAxes_enough [OF this, of "[]"] obtain axes where
    "readAxes (unat (AxisCount ?h)) (drop 16 buf) [] =
       Inr (axes, drop (20 * unat (AxisCount ?h)) (drop 16 buf))"
    "length axes = unat (AxisCount ?h)" by auto
  with assms(2) show ?thesis
    by (simp add: parseTableFvar_long [OF assms(1)] Let_def)
qed

lemma parseTableFvar_with_instances:
  assumes "binary_Read buf T_FvarHeader ''*sfnt.FvarHeader'' = Inr (hb, r)"
    and "InstanceCount (value_FvarHeader hb) \<noteq> 0"
  shows "isl (parseTableFvar tag buf)"
proof (rule ccontr)
  assume "\<not> isl (parseTableFvar tag buf)"
  then obtain t where "parseTableFvar tag buf = Inr t"
    by (cases "parseTableFvar tag buf") auto
  from parseTableFvar_Inr [OF this] read_FvarHeader_Inr [OF assms(1)] assms(2)
  show False by auto
qed

lemma length_fvar_header: "length (fvar_header a b c) = 16"
  by (simp add: fvar_header_def)

lemma value_fvar_header:
  "value_FvarHeader (fvar_header a b c) =
     \<lparr>MajorVersion = 1, MinorVersion = 0, OffsetToData = 16, CountSizePairs = 2,
      AxisCount = ucast a, AxisSize = 20, InstanceCount = ucast b, InstanceSize = ucast c\<rparr>"
  by (simp add: value_FvarHeader_def fvar_header_def u16_def be_def)

lemma parse_fvar_one_instance:
  "parseTableFvar 0x66766172 fvar_one_instance = Inl (InvalidType ''*sfnt.Instance'')"
  by code_simp

lemma parse_fvar_odd_size:
  "parseTableFvar 0x66766172 fvar_odd_size =
     Inr \<lparr>TableFvar.baseTable = 0x66766172, Header = value_FvarHeader (fvar_header 0 0 7),
          Axis = [], Instance = [], TableFvar.bytes = fvar_odd_size\<rparr>"
proof -
  have l: "16 \<le> length fvar_odd_size" by (simp add: fvar_odd_size_def length_fvar_header)
  have t: "take 16 fvar_odd_size = fvar_header 0 0 7"
    by (simp add: fvar_odd_size_def length_fvar_header)
  show ?thesis
    by (simp add: parseTableFvar_long [OF l] t value_fvar_header Let_def)
qed

subsection \<open>Instance records\<close>

text \<open>
  Claim C10. Both instance struct types have a slice-typed \<open>Coord\<close> field (and \<open>Instance\<close> a
  pointer-typed \<open>PsNameID\<close>), so encoding/binary gives them no size and \<open>binary.Read\<close>
  refuses them. Hence whenever the header decodes with an instance count other than 0,
  \<open>parseTableFvar\<close> returns an error; a table it returns has instance count 0 and no
  instance.
\<close>

theorem parseTableFvar_instances_fail:
  "sizeof T_Instance < 0 \<and> sizeof T_InstanceWithoutPSName < 0 \<and>
   (\<forall>hb r. binary_Read buf T_FvarHeader ''*sfnt.FvarHeader'' = Inr (hb, r) \<and>
           InstanceCount (value_FvarHeader hb) \<noteq> 0 \<longrightarrow>
           isl (parseTableFvar tag buf)) \<and>
   (\<forall>t. parseTableFvar tag buf = Inr t \<longrightarrow> InstanceCount (Header t) = 0 \<and> Instance t = [])"
proof (intro conjI allI impI)
  show "sizeof T_Instance < 0" by (simp add: sizeof_Instance)
  show "sizeof T_InstanceWithoutPSName < 0" by (simp add: sizeof_InstanceWithoutPSName)
next
  fix hb r
  assume "binary_Read buf T_FvarHeader ''*sfnt.FvarHeader'' = Inr (hb, r) \<and>
          InstanceCount (value_FvarHeader hb) \<noteq> 0"
  then show "isl (parseTableFvar tag buf)"
    using parseTableFvar_with_instances by blast
next
  fix t
  assume p: "parseTableFvar tag buf = Inr t"
  from parseTableFvar_Inr [OF p] show "InstanceCount (Header t) = 0" by blast
  from parseTableFvar_Inr [OF p] show "Instance t = []" by blast
qed

text \<open>The buffer with one axis and one instance record.\<close>

theorem parseTableFvar_instances_fail_witness:
  "binary_Read fvar_one_instance T_FvarHeader ''*sfnt.FvarHeader'' =
     Inr (fvar_header 1 1 8, drop 16 fvar_one_instance) \<and>
   InstanceCount (value_FvarHeader (fvar_header 1 1 8)) = 1 \<and>
   isl (parseTableFvar 0x66766172 fvar_one_instance)"
proof -
  have r: "binary_Read fvar_one_instance T_FvarHeader ''*sfnt.FvarHeader'' =
     Inr (fvar_header 1 1 8, drop 16 fvar_one_instance)"
    by (simp add: read_FvarHeader_ok fvar_one_instance_def length_fvar_header)
  have c: "InstanceCount (value_FvarHeader (fvar_header 1 1 8)) = 1"
    by (simp add: value_fvar_header)
  from parseTableFvar_instances_fail [of fvar_one_instance "0x66766172"] r c
  show ?thesis by simp
qed

text \<open>
  Claim C1 is not met by the code. The header of \<open>fvar_one_instance\<close> declares one axis and
  the instance size \<open>8 = 4 + 1 * 4\<close>, the size of a record without the PostScript NameID.
  The one size the parser tests for is \<open>32\<close> (four times the size of an \<open>int\<close>), whatever
  the axis count; so it takes the branch for records with the PostScript NameID, and
  \<open>binary.Read\<close> refuses the struct: the parse ends in an error and decodes no instance.
\<close>

theorem parseTableFvar_shape_failing_input:
  "parseTableFvar 0x66766172 fvar_one_instance = Inl (InvalidType ''*sfnt.Instance'') \<and>
   unat (InstanceSize (value_FvarHeader (take 16 fvar_one_instance))) = 8 \<and>
   spec_sizeWithoutPsName (AxisCount (value_FvarHeader (take 16 fvar_one_instance))) = 8 \<and>
   noPsNameIdVariant + invariant = 32"
proof -
  have t: "take 16 fvar_one_instance = fvar_header 1 1 8"
    by (simp add: fvar_one_instance_def length_fvar_header)
  show ?thesis
    by (simp add: parse_fvar_one_instance t value_fvar_header spec_sizeWithoutPsName_def
        noPsNameIdVariant_def invariant_def Sizeof_BasicKind_def)
qed

subsection \<open>Instance size\<close>

text \<open>
  Claim C2, as stated, fails. The header of \<open>fvar_odd_size\<close> declares no axis and the
  instance size 7, which is neither of the two expected sizes 4 and 6; the parse succeeds.
\<close>

theorem parseTableFvar_odd_size_counterexample:
  "\<not> isl (parseTableFvar 0x66766172 fvar_odd_size) \<and>
   unat (InstanceSize (Header (projr (parseTableFvar 0x66766172 fvar_odd_size)))) = 7 \<and>
   spec_sizeWithoutPsName
     (AxisCount (Header (projr (parseTableFvar 0x66766172 fvar_odd_size)))) = 4 \<and>
   spec_sizeWithPsName
     (AxisCount (Header (projr (parseTableFvar 0x66766172 fvar_odd_size)))) = 6"
  by (simp add: parse_fvar_odd_size value_fvar_header spec_sizeWithoutPsName_def
      spec_sizeWithPsName_def)

text \<open>
  Claim C2, amended. \<open>parseTableFvar\<close> does not check the declared instance size: when the
  header declares no instance and the buffer holds the header and the declared number of
  20-byte axis records, the parse succeeds whatever \<open>InstanceSize\<close> is, also when it
  matches neither expected size. The table has the decoded header, one axis for each
  declared axis and no instance.
\<close>

theorem parseTableFvar_no_size_check:
  "16 \<le> length buf \<and> InstanceCount (value_FvarHeader (take 16 buf)) = 0 \<and>
   16 + 20 * unat (AxisCount (value_FvarHeader (take 16 buf))) \<le> length buf \<Longrightarrow>
     \<exists>t. parseTableFvar tag buf = Inr t \<and> Header t = value_FvarHeader (take 16 buf) \<and>
         length (Axis t) = unat (AxisCount (Header t)) \<and> Instance t = []"
proof -
  assume a: "16 \<le> length buf \<and> InstanceCount (value_FvarHeader (take 16 buf)) = 0 \<and>
   16 + 20 * unat (AxisCount (value_FvarHeader (take 16 buf))) \<le> length buf"
  then have "16 \<le> length buf" "InstanceCount (value_FvarHeader (take 16 buf)) = 0"
    "16 + 20 * unat (AxisCount (value_FvarHeader (take 16 buf))) \<le> length buf" by simp_all
  from parseTableFvar_no_instances [OF this, of tag] show ?thesis by auto
qed

text \<open>One axis, no instance, and the instance size 9, which is neither 8 nor 10.\<close>

theorem parseTableFvar_no_size_check_witness:
  "\<not> isl (parseTableFvar 0x66766172 (fvar_header 1 0 9 @ wght_axis)) \<and>
   InstanceSize (Header (projr (parseTableFvar 0x66766172 (fvar_header 1 0 9 @ wght_axis)))) = 9 \<and>
   AxisCount (Header (projr (parseTableFvar 0x66766172 (fvar_header 1 0 9 @ wght_axis)))) = 1 \<and>
   length (Axis (projr (parseTableFvar 0x66766172 (fvar_header 1 0 9 @ wght_axis)))) = 1"
proof -
  let ?buf = "fvar_header 1 0 9 @ wght_axis"
  have l: "length ?buf = 36" by (simp add: length_fvar_header wght_axis_def)
  have h: "value_FvarHeader (take 16 ?buf) = value_FvarHeader (fvar_header 1 0 9)"
    by (simp add: length_fvar_header)
  have "16 \<le> length ?buf \<and> InstanceCount (value_FvarHeader (take 16 ?buf)) = 0 \<and>
   16 + 20 * unat (AxisCount (value_FvarHeader (take 16 ?buf))) \<le> length ?buf"
    unfolding h l by (simp add: value_fvar_header)
  from parseTableFvar_no_size_check [OF this, of "0x66766172"] obtain t where
    "parseTableFvar 0x66766172 ?buf = Inr t" "Header t = value_FvarHeader (take 16 ?buf)"
    "length (Axis t) = unat (AxisCount (Header t))" by auto
  then show ?thesis unfolding h by (simp add: value_fvar_header)
qed

section \<open>Raw bytes\<close>

text \<open>
  Claim C9. Whenever \<open>parseTableOS2\<close> or \<open>parseTableFvar\<close> returns a table, the table's
  \<open>Bytes()\<close> is the input buffer, byte for byte.
\<close>

theorem Bytes_verbatim:
  "(\<forall>t. parseTableOS2 tag buf = Inr t \<longrightarrow> Bytes_OS2 t = buf) \<and>
   (\<forall>t. parseTableFvar tag buf = Inr t \<longrightarrow> Bytes_Fvar t = buf)"
proof (intro conjI allI impI)
  fix t assume p: "parseTableOS2 tag buf = Inr t"
  show "Bytes_OS2 t = buf"
  proof (cases "length buf < 68")
    case True
    with p show ?thesis by (simp add: parseTableOS2_short)
  next
    case False
    with p show ?thesis by (auto simp: parseTableOS2_long Bytes_OS2_def)
  qed
next
  fix t assume "parseTableFvar tag buf = Inr t"
  from parseTableFvar_Inr [OF this] show "Bytes_Fvar t = buf" by (simp add: Bytes_Fvar_def)
qed

text \<open>The 100-byte OS/2 buffer and the fvar buffer with one axis.\<close>

theorem Bytes_verbatim_witness:
  "\<not> isl (parseTableOS2 0x4F532F32 os2_full) \<and>
   Bytes_OS2 (projr (parseTableOS2 0x4F532F32 os2_full)) = os2_full \<and>
   \<not> isl (parseTableFvar 0x66766172 fvar_axes_only) \<and>
   Bytes_Fvar (projr (parseTableFvar 0x66766172 fvar_axes_only)) = fvar_axes_only"
proof -
  have o: "parseTableOS2 0x4F532F32 os2_full = Inr (projr (parseTableOS2 0x4F532F32 os2_full))"
    by (simp add: parseTableOS2_long length_os2_full)
  have l: "length fvar_axes_only = 36"
    by (simp add: fvar_axes_only_def length_fvar_header wght_axis_def)
  have h: "take 16 fvar_axes_only = fvar_header 1 0 8"
    by (simp add: fvar_axes_only_def length_fvar_header)
  from parseTableFvar_no_instances [of fvar_axes_only "0x66766172"]
  have f: "parseTableFvar 0x66766172 fvar_axes_only =
           Inr (projr (parseTableFvar 0x66766172 fvar_axes_only))"
    unfolding h l by (auto simp: value_fvar_header)
  from Bytes_verbatim [of "0x4F532F32" os2_full] o
  have 1: "Bytes_OS2 (projr (parseTableOS2 0x4F532F32 os2_full)) = os2_full" by blast
  from Bytes_verbatim [of "0x66766172" fvar_axes_only] f
  have 2: "Bytes_Fvar (projr (parseTableFvar 0x66766172 fvar_axes_only)) = fvar_axes_only"
    by blast
  from o f 1 2 show ?thesis by (metis sum.disc(2))
qed

end
